theory Spec2Isabelle
  imports Main "HOL-Library.Log_Nat"
begin

section \<open>JavaScript values as the order handler sees them\<close>

text \<open>
  The handler of \<^verbatim>\<open>POST /api/create-order\<close> (\<^verbatim>\<open>src/server.js\<close>, lines 63 to 211)
  works on the value that \<^verbatim>\<open>express.json()\<close> parsed from the request body. A parsed
  JSON text is \<^verbatim>\<open>null\<close>, a boolean, a number, a string, an array or an object;
  reading a property that is not there gives \<^verbatim>\<open>undefined\<close>.

  A number is an IEEE 754 binary64 value. The finite ones are kept as the rational they
  denote; \<^verbatim>\<open>JSON.parse\<close> yields \<^verbatim>\<open>Infinity\<close> for a literal such as \<^verbatim>\<open>1e999\<close>, and
  \<^verbatim>\<open>NaN\<close> arises from arithmetic. The two zeros are one value here: the handler never
  divides, and \<^verbatim>\<open>JSON.stringify\<close> prints both as \<^verbatim>\<open>0\<close>.
\<close>

datatype jsnum = NaN | PosInf | NegInf | Fin rat

datatype jsval =
    Undefined
  | Null
  | Bool bool
  | Num jsnum
  | Str string
  | Arr "jsval list"
  | Obj "(string \<times> jsval) list"

text \<open>An object keeps one entry for each key, in the order of the object literal.\<close>

subsection \<open>Rounding to binary64\<close>

definition pow2 :: "int \<Rightarrow> rat" where
  "pow2 k = (if 0 \<le> k then 2 ^ nat k else 1 / 2 ^ nat (- k))"

text \<open>\<open>ilog2 x\<close> is the exponent \<open>k\<close> with \<open>2\<^sup>k \<le> x < 2\<^sup>k\<^sup>+\<^sup>1\<close>, for a positive \<open>x\<close>.\<close>

definition ilog2 :: "rat \<Rightarrow> int" where
  "ilog2 x = (case quotient_of x of (a, b) \<Rightarrow>
     (let k = bitlen a - bitlen b in if pow2 k \<le> x then k else k - 1))"

definition round_half_even :: "rat \<Rightarrow> int" where
  "round_half_even x = (let f = \<lfloor>x\<rfloor>; d = x - of_int f in
     if d < 1 / 2 then f
     else if 1 / 2 < d then f + 1
     else if even f then f else f + 1)"

text \<open>
  Round to nearest, ties to even, with 53 bits of significand, the least exponent
  \<open>-1074\<close> (subnormal numbers) and overflow to infinity from \<open>2\<^sup>1\<^sup>0\<^sup>2\<^sup>4\<close> on.
\<close>

definition round64 :: "rat \<Rightarrow> jsnum" where
  "round64 x = (if x = 0 then Fin 0 else
     (let a = \<bar>x\<bar>;
          e = max (ilog2 a - 52) (- 1074);
          r = of_int (round_half_even (a / pow2 e)) * pow2 e
      in if pow2 1024 \<le> r then (if 0 < x then PosInf else NegInf)
         else Fin (if 0 < x then r else - r)))"

subsection \<open>Number operations\<close>

fun isFinite_num :: "jsnum \<Rightarrow> bool" where
  "isFinite_num (Fin _) = True"
| "isFinite_num _ = False"

text \<open>\<^verbatim>\<open>a + b\<close> on two numbers.\<close>

fun num_add :: "jsnum \<Rightarrow> jsnum \<Rightarrow> jsnum" where
  "num_add NaN _ = NaN"
| "num_add _ NaN = NaN"
| "num_add PosInf NegInf = NaN"
| "num_add NegInf PosInf = NaN"
| "num_add PosInf _ = PosInf"
| "num_add NegInf _ = NegInf"
| "num_add _ PosInf = PosInf"
| "num_add _ NegInf = NegInf"
| "num_add (Fin x) (Fin y) = round64 (x + y)"

text \<open>\<^verbatim>\<open>a * b\<close> on two numbers.\<close>

fun num_sign :: "jsnum \<Rightarrow> int" where
  "num_sign NaN = 0"
| "num_sign PosInf = 1"
| "num_sign NegInf = - 1"
| "num_sign (Fin x) = (if 0 < x then 1 else if x < 0 then - 1 else 0)"

fun num_mul :: "jsnum \<Rightarrow> jsnum \<Rightarrow> jsnum" where
  "num_mul NaN _ = NaN"
| "num_mul _ NaN = NaN"
| "num_mul (Fin x) (Fin y) = round64 (x * y)"
| "num_mul a b =
     (let s = num_sign a * num_sign b in
      if s = 0 then NaN else if 0 < s then PosInf else NegInf)"

text \<open>\<^verbatim>\<open>a < b\<close> and \<^verbatim>\<open>a <= b\<close> on two numbers: false as soon as one is \<^verbatim>\<open>NaN\<close>.\<close>

fun num_lt :: "jsnum \<Rightarrow> jsnum \<Rightarrow> bool" where
  "num_lt NaN _ = False"
| "num_lt _ NaN = False"
| "num_lt PosInf _ = False"
| "num_lt _ PosInf = True"
| "num_lt _ NegInf = False"
| "num_lt NegInf _ = True"
| "num_lt (Fin x) (Fin y) = (x < y)"

fun num_le :: "jsnum \<Rightarrow> jsnum \<Rightarrow> bool" where
  "num_le NaN _ = False"
| "num_le _ NaN = False"
| "num_le a b = (\<not> num_lt b a)"

subsection \<open>What the surroundings of a request supply\<close>

record http_request =
  req_url :: string
  req_data :: jsval
  req_headers :: "(string \<times> string) list"
  req_timeout :: nat

record http_response =
  resp_status :: nat
  resp_data :: jsval

text \<open>
  A thrown value, as the \<^verbatim>\<open>catch\<close> block reads it: \<^verbatim>\<open>error.message\<close> and
  \<^verbatim>\<open>error.response\<close>. A \<^verbatim>\<open>TypeError\<close> of the engine has no response; a rejected
  \<^verbatim>\<open>axios.post\<close> has one when the provider answered.
\<close>

datatype js_error = JsError (message: string) (response: "http_response option")

text \<open>
  Everything the handler reads that is not the request body: the two environment
  variables, the clock, the provider behind \<^verbatim>\<open>axios.post\<close>, and the conversions of the
  ECMAScript engine that the repository does not contain (\<^verbatim>\<open>Number::toString\<close>,
  \<^verbatim>\<open>StringToNumber\<close> and the text of a \<^verbatim>\<open>TypeError\<close>). \<open>default_token\<close> is the
  literal after \<^verbatim>\<open>process.env.SHIPROCKET_TOKEN ||\<close>, the one place where the two copies
  of the handler under \<^verbatim>\<open>src/\<close> differ.
\<close>

record world =
  env_SHIPROCKET_TOKEN :: "string option"
  env_SHIPROCKET_PICKUP_LOCATION :: "string option"
  default_token :: string
  date_toISOString :: string
  axios_post :: "http_request \<Rightarrow> js_error + http_response"
  number_to_string :: "jsnum \<Rightarrow> string"
  string_to_number :: "string \<Rightarrow> jsnum"
  type_error_message :: "jsval \<Rightarrow> string \<Rightarrow> string"

subsection \<open>Operators of the language\<close>

text \<open>\<^verbatim>\<open>!v\<close> is \<open>\<not> truthy v\<close>.\<close>

fun truthy :: "jsval \<Rightarrow> bool" where
  "truthy Undefined = False"
| "truthy Null = False"
| "truthy (Bool b) = b"
| "truthy (Num n) = (n \<noteq> NaN \<and> n \<noteq> Fin 0)"
| "truthy (Str s) = (s \<noteq> [])"
| "truthy (Arr _) = True"
| "truthy (Obj _) = True"

text \<open>\<^verbatim>\<open>a || b\<close>.\<close>

definition js_or :: "jsval \<Rightarrow> jsval \<Rightarrow> jsval" where
  "js_or a b = (if truthy a then a else b)"

text \<open>\<^verbatim>\<open>process.env.X || d\<close>: an unset or empty variable gives the default.\<close>

definition env_or :: "string option \<Rightarrow> string \<Rightarrow> string" where
  "env_or v d = (case v of None \<Rightarrow> d | Some s \<Rightarrow> if s = [] then d else s)"

fun nullish :: "jsval \<Rightarrow> bool" where
  "nullish Undefined = True"
| "nullish Null = True"
| "nullish _ = False"

text \<open>
  \<open>read v k\<close> is \<^verbatim>\<open>v.k\<close> for a value that is neither \<^verbatim>\<open>null\<close> nor \<^verbatim>\<open>undefined\<close>,
  and for a name \<open>k\<close> that no prototype defines (the handler reads no other). The
  length of a string is counted in the characters of the model.
\<close>

fun read :: "jsval \<Rightarrow> string \<Rightarrow> jsval" where
  "read (Obj fs) k = (case map_of fs k of None \<Rightarrow> Undefined | Some v \<Rightarrow> v)"
| "read (Arr xs) k = (if k = ''length'' then Num (Fin (of_nat (length xs))) else Undefined)"
| "read (Str s) k = (if k = ''length'' then Num (Fin (of_nat (length s))) else Undefined)"
| "read _ k = Undefined"

text \<open>\<^verbatim>\<open>v.k\<close> in general: reading a property of \<^verbatim>\<open>null\<close> or \<^verbatim>\<open>undefined\<close> throws.\<close>

definition get_prop :: "world \<Rightarrow> jsval \<Rightarrow> string \<Rightarrow> js_error + jsval" where
  "get_prop w v k =
     (if nullish v then Inl (JsError (type_error_message w v k) None) else Inr (read v k))"

text \<open>\<^verbatim>\<open>v?.k\<close>.\<close>

definition get_prop_opt :: "jsval \<Rightarrow> string \<Rightarrow> jsval" where
  "get_prop_opt v k = (if nullish v then Undefined else read v k)"

definition bind_thrown :: "js_error + 'a \<Rightarrow> ('a \<Rightarrow> js_error + 'b) \<Rightarrow> js_error + 'b" where
  "bind_thrown m f = (case m of Inl e \<Rightarrow> Inl e | Inr x \<Rightarrow> f x)"

fun isArray :: "jsval \<Rightarrow> bool" where
  "isArray (Arr _) = True"
| "isArray _ = False"

fun elements :: "jsval \<Rightarrow> jsval list" where
  "elements (Arr xs) = xs"
| "elements _ = []"

text \<open>\<^verbatim>\<open>Number.isFinite(v)\<close>: no conversion, so only a finite number passes.\<close>

fun Number_isFinite :: "jsval \<Rightarrow> bool" where
  "Number_isFinite (Num n) = isFinite_num n"
| "Number_isFinite _ = False"

fun join_comma :: "string list \<Rightarrow> string" where
  "join_comma [] = []"
| "join_comma [s] = s"
| "join_comma (s # t # ss) = s @ '','' @ join_comma (t # ss)"

text \<open>
  \<^verbatim>\<open>String(v)\<close>, which a template literal applies to \<^verbatim>\<open>${v}\<close>. An object is
  converted by its \<^verbatim>\<open>toString\<close>, then by its \<^verbatim>\<open>valueOf\<close>. An object parsed from JSON
  inherits both, and the inherited \<^verbatim>\<open>toString\<close> gives \<^verbatim>\<open>[object Object]\<close>; but an entry
  \<^verbatim>\<open>"toString"\<close> of its own hides the inherited method and is never a function, the
  inherited \<^verbatim>\<open>valueOf\<close> returns the object itself, and the conversion throws a
  \<^verbatim>\<open>TypeError\<close>. An array joins the strings of its elements, \<^verbatim>\<open>null\<close> giving the
  empty string, and throws where an element does.
\<close>

fun to_string :: "world \<Rightarrow> jsval \<Rightarrow> js_error + string"
  and to_strings :: "world \<Rightarrow> jsval list \<Rightarrow> js_error + string list" where
  "to_string w Undefined = Inr ''undefined''"
| "to_string w Null = Inr ''null''"
| "to_string w (Bool b) = Inr (if b then ''true'' else ''false'')"
| "to_string w (Num n) = Inr (number_to_string w n)"
| "to_string w (Str s) = Inr s"
| "to_string w (Arr xs) = bind_thrown (to_strings w xs) (\<lambda>ss. Inr (join_comma ss))"
| "to_string w (Obj fs) =
     (if map_of fs ''toString'' = None then Inr ''[object Object]''
      else Inl (JsError (type_error_message w (Obj fs) ''toString'') None))"
| "to_strings w [] = Inr []"
| "to_strings w (x # xs) =
     bind_thrown (if nullish x then Inr [] else to_string w x) (\<lambda>s.
     bind_thrown (to_strings w xs) (\<lambda>ss. Inr (s # ss)))"

text \<open>
  The conversion of an operand to a primitive: an array or an object becomes its
  string, or throws as that conversion does (the inherited \<^verbatim>\<open>valueOf\<close> is tried first
  and returns the object itself).
\<close>

fun to_primitive :: "world \<Rightarrow> jsval \<Rightarrow> js_error + jsval" where
  "to_primitive w (Arr xs) = bind_thrown (to_string w (Arr xs)) (\<lambda>s. Inr (Str s))"
| "to_primitive w (Obj fs) = bind_thrown (to_string w (Obj fs)) (\<lambda>s. Inr (Str s))"
| "to_primitive w v = Inr v"

text \<open>\<^verbatim>\<open>Number(v)\<close>.\<close>

fun to_number :: "world \<Rightarrow> jsval \<Rightarrow> js_error + jsnum" where
  "to_number w Undefined = Inr NaN"
| "to_number w Null = Inr (Fin 0)"
| "to_number w (Bool b) = Inr (Fin (if b then 1 else 0))"
| "to_number w (Num n) = Inr n"
| "to_number w (Str s) = Inr (string_to_number w s)"
| "to_number w v = bind_thrown (to_string w v) (\<lambda>s. Inr (string_to_number w s))"

fun is_string :: "jsval \<Rightarrow> bool" where
  "is_string (Str _) = True"
| "is_string _ = False"

text \<open>\<^verbatim>\<open>a + b\<close>: concatenation as soon as one operand is a string, addition otherwise.\<close>

definition js_plus :: "world \<Rightarrow> jsval \<Rightarrow> jsval \<Rightarrow> js_error + jsval" where
  "js_plus w a b =
     bind_thrown (to_primitive w a) (\<lambda>pa.
     bind_thrown (to_primitive w b) (\<lambda>pb.
       if is_string pa \<or> is_string pb
       then bind_thrown (to_string w pa) (\<lambda>sa.
            bind_thrown (to_string w pb) (\<lambda>sb. Inr (Str (sa @ sb))))
       else bind_thrown (to_number w pa) (\<lambda>na.
            bind_thrown (to_number w pb) (\<lambda>nb. Inr (Num (num_add na nb))))))"

text \<open>\<^verbatim>\<open>a * b\<close>.\<close>

definition js_times :: "world \<Rightarrow> jsval \<Rightarrow> jsval \<Rightarrow> js_error + jsval" where
  "js_times w a b =
     bind_thrown (to_number w a) (\<lambda>na.
     bind_thrown (to_number w b) (\<lambda>nb. Inr (Num (num_mul na nb))))"

text \<open>
  \<^verbatim>\<open>a < b\<close> and \<^verbatim>\<open>a <= b\<close>: two strings compare by their characters, anything else
  as numbers. \<^verbatim>\<open>a <= b\<close> is the negation of \<^verbatim>\<open>b < a\<close> unless a \<^verbatim>\<open>NaN\<close> is involved.
\<close>

fun string_lt :: "string \<Rightarrow> string \<Rightarrow> bool" where
  "string_lt _ [] = False"
| "string_lt [] (_ # _) = True"
| "string_lt (c # cs) (d # ds) =
     ((of_char c :: nat) < of_char d \<or> (c = d \<and> string_lt cs ds))"

definition js_lt :: "world \<Rightarrow> jsval \<Rightarrow> jsval \<Rightarrow> js_error + bool" where
  "js_lt w a b =
     bind_thrown (to_primitive w a) (\<lambda>pa.
     bind_thrown (to_primitive w b) (\<lambda>pb.
       case (pa, pb) of
         (Str s, Str t) \<Rightarrow> Inr (string_lt s t)
       | _ \<Rightarrow> bind_thrown (to_number w pa) (\<lambda>na.
              bind_thrown (to_number w pb) (\<lambda>nb. Inr (num_lt na nb)))))"

definition js_le :: "world \<Rightarrow> jsval \<Rightarrow> jsval \<Rightarrow> js_error + bool" where
  "js_le w a b =
     bind_thrown (to_primitive w a) (\<lambda>pa.
     bind_thrown (to_primitive w b) (\<lambda>pb.
       case (pa, pb) of
         (Str s, Str t) \<Rightarrow> Inr (\<not> string_lt t s)
       | _ \<Rightarrow> bind_thrown (to_number w pa) (\<lambda>na.
              bind_thrown (to_number w pb) (\<lambda>nb. Inr (num_le na nb)))))"

subsection \<open>Array methods with a callback that may throw\<close>

text \<open>\<^verbatim>\<open>xs.find(p)\<close>: the first element on which \<open>p\<close> holds, \<^verbatim>\<open>undefined\<close> if none.\<close>

fun array_find :: "(jsval \<Rightarrow> js_error + bool) \<Rightarrow> jsval list \<Rightarrow> js_error + jsval" where
  "array_find p [] = Inr Undefined"
| "array_find p (x # xs) =
     bind_thrown (p x) (\<lambda>hit. if hit then Inr x else array_find p xs)"

fun array_map :: "(jsval \<Rightarrow> js_error + jsval) \<Rightarrow> jsval list \<Rightarrow> js_error + jsval list" where
  "array_map f [] = Inr []"
| "array_map f (x # xs) =
     bind_thrown (f x) (\<lambda>y. bind_thrown (array_map f xs) (\<lambda>ys. Inr (y # ys)))"

fun array_reduce ::
  "(jsval \<Rightarrow> jsval \<Rightarrow> js_error + jsval) \<Rightarrow> jsval \<Rightarrow> jsval list \<Rightarrow> js_error + jsval" where
  "array_reduce f acc [] = Inr acc"
| "array_reduce f acc (x # xs) = bind_thrown (f acc x) (\<lambda>acc'. array_reduce f acc' xs)"

section \<open>The handler of \<^verbatim>\<open>POST /api/create-order\<close>\<close>

text \<open>
  What one run of the handler leaves behind: the entries it handed to the logger, the
  requests it sent to the provider, and either the reply it gave or the value it threw.
\<close>

datatype level = Error | Warn | Info

datatype log_entry = Log level string jsval

record reply =
  res_status :: nat
  res_json :: jsval

record outcome =
  logs :: "log_entry list"
  calls :: "http_request list"
  result :: "js_error + reply"

definition respond :: "nat \<Rightarrow> jsval \<Rightarrow> js_error + reply" where
  "respond code body = Inr \<lparr>res_status = code, res_json = body\<rparr>"

text \<open>\<^verbatim>\<open>{ success: false, error: reason }\<close> with status 400.\<close>

definition reject :: "string \<Rightarrow> js_error + reply" where
  "reject reason = respond 400 (Obj [(''success'', Bool False), (''error'', Str reason)])"

subsection \<open>Validation (lines 76 to 104)\<close>

text \<open>The callback of \<^verbatim>\<open>cart.find\<close> at line 92, with the short circuit of \<^verbatim>\<open>||\<close>.\<close>

definition invalid_item :: "world \<Rightarrow> jsval \<Rightarrow> js_error + bool" where
  "invalid_item w item =
     bind_thrown (get_prop w item ''id'') (\<lambda>id.
       if \<not> truthy id then Inr True else
     bind_thrown (get_prop w item ''name'') (\<lambda>name.
       if \<not> truthy name then Inr True else
     bind_thrown (get_prop w item ''price'') (\<lambda>price.
       if \<not> Number_isFinite price then Inr True else
     bind_thrown (get_prop w item ''quantity'') (\<lambda>quantity.
       if \<not> Number_isFinite quantity then Inr True else
     js_le w quantity (Num (Fin 0))))))"

text \<open>The condition of line 98, with the short circuit of \<^verbatim>\<open>||\<close>.\<close>

definition invalid_total :: "world \<Rightarrow> jsval \<Rightarrow> js_error + bool" where
  "invalid_total w totalAmount =
     (if \<not> Number_isFinite totalAmount then Inr True
      else js_lt w totalAmount (Num (Fin 0)))"

subsection \<open>Mapping to the provider's payload (lines 106 to 155)\<close>

text \<open>
  The callback of \<^verbatim>\<open>cart.map\<close> at line 106. The template literal of line 108
  converts \<^verbatim>\<open>item.id\<close> to a string, which may throw.
\<close>

definition order_item :: "world \<Rightarrow> jsval \<Rightarrow> js_error + jsval" where
  "order_item w item =
     bind_thrown (get_prop w item ''name'') (\<lambda>name.
     bind_thrown (get_prop w item ''id'') (\<lambda>id.
     bind_thrown (to_string w id) (\<lambda>id_string.
     bind_thrown (get_prop w item ''quantity'') (\<lambda>quantity.
     bind_thrown (get_prop w item ''price'') (\<lambda>price.
       Inr (Obj [
         (''name'', name),
         (''sku'', Str (''SKU-'' @ id_string)),
         (''units'', quantity),
         (''selling_price'', price),
         (''discount'', Num (Fin 0)),
         (''tax'', Num (Fin 0)),
         (''hsn'', Str ''4901'')]))))))"

text \<open>\<^verbatim>\<open>new Date().toISOString().split('T')[0]\<close>.\<close>

definition orderDate :: "world \<Rightarrow> string" where
  "orderDate w = takeWhile (\<lambda>c. c \<noteq> CHR ''T'') (date_toISOString w)"

text \<open>The callback of \<^verbatim>\<open>cart.reduce\<close> at line 154.\<close>

definition add_quantity :: "world \<Rightarrow> jsval \<Rightarrow> jsval \<Rightarrow> js_error + jsval" where
  "add_quantity w acc item =
     bind_thrown (get_prop w item ''quantity'') (\<lambda>quantity. js_plus w acc quantity)"

text \<open>
  The object literal of lines 119 to 155. \<open>formData\<close> is truthy where the literal is
  evaluated, so its properties are read without a throw.
\<close>

definition payload ::
  "world \<Rightarrow> jsval \<Rightarrow> jsval \<Rightarrow> jsval \<Rightarrow> jsval \<Rightarrow> jsval \<Rightarrow> jsval \<Rightarrow> jsval list
     \<Rightarrow> js_error + jsval" where
  "payload w orderId cart formData totalAmount shippingCost couponDiscount orderItems =
     bind_thrown (array_reduce (add_quantity w) (Num (Fin 0)) (elements cart)) (\<lambda>total.
     bind_thrown (js_times w (Num (Fin (1 / 2))) total) (\<lambda>weight.
       Inr (Obj [
         (''order_id'', orderId),
         (''order_date'', Str (orderDate w)),
         (''pickup_location'', Str (env_or (env_SHIPROCKET_PICKUP_LOCATION w) ''Primary'')),
         (''channel_id'', Str []),
         (''comment'', Str ''Order from Janata Books Point''),
         (''billing_customer_name'', read formData ''name''),
         (''billing_last_name'', Str []),
         (''billing_address'', read formData ''address''),
         (''billing_city'', js_or (read formData ''city'') (Str [])),
         (''billing_pincode'', read formData ''pincode''),
         (''billing_state'', read formData ''state''),
         (''billing_country'', Str ''India''),
         (''billing_email'', read formData ''email''),
         (''billing_phone'', read formData ''phone''),
         (''shipping_is_billing'', Bool True),
         (''shipping_customer_name'', read formData ''name''),
         (''shipping_last_name'', Str []),
         (''shipping_address'', read formData ''address''),
         (''shipping_city'', js_or (read formData ''city'') (Str [])),
         (''shipping_pincode'', read formData ''pincode''),
         (''shipping_country'', Str ''India''),
         (''shipping_state'', read formData ''state''),
         (''shipping_email'', read formData ''email''),
         (''shipping_phone'', read formData ''phone''),
         (''order_items'', Arr orderItems),
         (''payment_method'', Str ''Prepaid''),
         (''shipping_charges'', js_or shippingCost (Num (Fin 0))),
         (''giftwrap_charges'', Num (Fin 0)),
         (''transaction_charges'', Num (Fin 0)),
         (''total_discount'', js_or couponDiscount (Num (Fin 0))),
         (''sub_total'', totalAmount),
         (''length'', Num (Fin 30)),
         (''breadth'', Num (Fin 20)),
         (''height'', Num (Fin 5)),
         (''weight'', weight)])))"

text \<open>
  The payload mapper: lines 106 to 155 as a function of the parsed body and of the
  surroundings.
\<close>

definition provider_payload :: "world \<Rightarrow> jsval \<Rightarrow> js_error + jsval" where
  "provider_payload w body =
     bind_thrown (array_map (order_item w) (elements (read body ''cart''))) (\<lambda>orderItems.
       payload w (read body ''orderId'') (read body ''cart'') (read body ''formData'')
         (read body ''totalAmount'') (read body ''shippingCost'') (read body ''couponDiscount'')
         orderItems)"

subsection \<open>The call to the provider (lines 157 to 177)\<close>

definition shiprocketConfig_token :: "world \<Rightarrow> string" where
  "shiprocketConfig_token w = env_or (env_SHIPROCKET_TOKEN w) (default_token w)"

definition shiprocketConfig_apiUrl :: string where
  "shiprocketConfig_apiUrl = ''https://apiv2.shiprocket.in''"

definition create_request :: "world \<Rightarrow> jsval \<Rightarrow> http_request" where
  "create_request w p =
     \<lparr>req_url = shiprocketConfig_apiUrl @ ''/v1/external/orders/create/adhoc'',
      req_data = p,
      req_headers = [(''Content-Type'', ''application/json''),
                     (''Authorization'', ''Bearer '' @ shiprocketConfig_token w)],
      req_timeout = 10000\<rparr>"

text \<open>
  From the \<^verbatim>\<open>await\<close> on: the request is sent once; a rejection is thrown to the
  \<^verbatim>\<open>catch\<close> block, and so is the \<^verbatim>\<open>TypeError\<close> of \<^verbatim>\<open>response.data.order_id\<close> when
  the provider's body is \<^verbatim>\<open>null\<close>.
\<close>

definition send_order :: "world \<Rightarrow> log_entry list \<Rightarrow> jsval \<Rightarrow> jsval \<Rightarrow> outcome" where
  "send_order w ls orderId p =
     (let rq = create_request w p in
      case axios_post w rq of
        Inl e \<Rightarrow> \<lparr>logs = ls, calls = [rq], result = Inl e\<rparr>
      | Inr rsp \<Rightarrow>
          (case get_prop w (resp_data rsp) ''order_id'' of
             Inl e \<Rightarrow> \<lparr>logs = ls, calls = [rq], result = Inl e\<rparr>
           | Inr order_id \<Rightarrow>
               \<lparr>logs = ls @ [Log Info ''Shiprocket order created successfully''
                         (Obj [(''orderId'', orderId), (''shiprocketOrderId'', order_id)])],
                calls = [rq],
                result = respond 200 (Obj [
                  (''success'', Bool True),
                  (''shiprocketOrderId'', order_id),
                  (''message'', Str ''Order created successfully in Shiprocket'')])\<rparr>))"

text \<open>What \<open>send_order\<close> ends with, as a function of the payload alone.\<close>

definition relay :: "world \<Rightarrow> jsval \<Rightarrow> js_error + reply" where
  "relay w p =
     (case axios_post w (create_request w p) of
        Inl e \<Rightarrow> Inl e
      | Inr rsp \<Rightarrow>
          (case get_prop w (resp_data rsp) ''order_id'' of
             Inl e \<Rightarrow> Inl e
           | Inr order_id \<Rightarrow>
               respond 200 (Obj [
                  (''success'', Bool True),
                  (''shiprocketOrderId'', order_id),
                  (''message'', Str ''Order created successfully in Shiprocket'')])))"

text \<open>Lines 102 to 177: the warning, the mapping, the two info entries and the call.\<close>

definition forward ::
  "world \<Rightarrow> jsval \<Rightarrow> jsval \<Rightarrow> jsval \<Rightarrow> jsval \<Rightarrow> jsval \<Rightarrow> jsval \<Rightarrow> outcome" where
  "forward w orderId cart formData totalAmount shippingCost couponDiscount =
     (let warned =
        (if totalAmount = Num (Fin 0)
         then [Log Warn ''Total amount is zero, proceeding with warning''
                 (Obj [(''orderId'', orderId), (''totalAmount'', totalAmount)])]
         else [])
      in
      case array_map (order_item w) (elements cart) of
        Inl e \<Rightarrow> \<lparr>logs = warned, calls = [], result = Inl e\<rparr>
      | Inr orderItems \<Rightarrow>
          (let ls = warned @ [Log Info ''Cart details''
                      (Obj [(''cart'', cart), (''orderItems'', Arr orderItems)])]
           in
           case payload w orderId cart formData totalAmount shippingCost couponDiscount
                  orderItems of
             Inl e \<Rightarrow> \<lparr>logs = ls, calls = [], result = Inl e\<rparr>
           | Inr p \<Rightarrow>
               send_order w
                 (ls @ [Log Info ''Sending order to Shiprocket''
                    (Obj [(''orderId'', orderId), (''totalAmount'', totalAmount),
                          (''itemCount'', read cart ''length''), (''payload'', p)])])
                 orderId p))"

subsection \<open>The \<^verbatim>\<open>try\<close> block (lines 65 to 177)\<close>

text \<open>
  The destructuring of line 65 throws on a body that is \<^verbatim>\<open>null\<close> or \<^verbatim>\<open>undefined\<close>.
  \<^verbatim>\<open>deliveryDays\<close> is read there and never used. The calls of the logger and of
  \<^verbatim>\<open>res.json\<close> are taken not to throw.
\<close>

definition try_block :: "world \<Rightarrow> jsval \<Rightarrow> outcome" where
  "try_block w body =
     (if nullish body
      then \<lparr>logs = [], calls = [],
            result = Inl (JsError (type_error_message w body ''orderId'') None)\<rparr>
      else
       (let orderId = read body ''orderId'';
            cart = read body ''cart'';
            formData = read body ''formData'';
            totalAmount = read body ''totalAmount'';
            shippingCost = read body ''shippingCost'';
            couponDiscount = read body ''couponDiscount'';
            paymentId = read body ''paymentId''
        in
        if \<not> truthy orderId \<or> \<not> truthy cart \<or> \<not> isArray cart \<or> length (elements cart) = 0
           \<or> \<not> truthy formData \<or> \<not> truthy paymentId
        then
          \<lparr>logs = [Log Error ''Invalid order data received''
                     (Obj [(''orderId'', orderId),
                           (''cartLength'', get_prop_opt cart ''length''),
                           (''formData'', formData),
                           (''totalAmount'', totalAmount),
                           (''paymentId'', paymentId)])],
           calls = [],
           result = reject ''Missing required order data''\<rparr>
        else if \<not> truthy (read formData ''name'') \<or> \<not> truthy (read formData ''email'')
           \<or> \<not> truthy (read formData ''phone'') \<or> \<not> truthy (read formData ''address'')
           \<or> \<not> truthy (read formData ''pincode'') \<or> \<not> truthy (read formData ''state'')
        then
          \<lparr>logs = [Log Error ''Incomplete form data'' (Obj [(''formData'', formData)])],
           calls = [],
           result = reject ''Incomplete shipping details''\<rparr>
        else
         (case array_find (invalid_item w) (elements cart) of
            Inl e \<Rightarrow> \<lparr>logs = [], calls = [], result = Inl e\<rparr>
          | Inr invalidItem \<Rightarrow>
              if truthy invalidItem
              then
                \<lparr>logs = [Log Error ''Invalid cart item detected''
                           (Obj [(''invalidItem'', invalidItem)])],
                 calls = [],
                 result = reject ''Invalid cart item data''\<rparr>
              else
               (case invalid_total w totalAmount of
                  Inl e \<Rightarrow> \<lparr>logs = [], calls = [], result = Inl e\<rparr>
                | Inr bad \<Rightarrow>
                    if bad
                    then
                      \<lparr>logs = [Log Error ''Invalid total amount''
                                 (Obj [(''totalAmount'', totalAmount)])],
                       calls = [],
                       result = reject ''Total amount must be a valid non-negative number''\<rparr>
                    else forward w orderId cart formData totalAmount shippingCost
                           couponDiscount))))"

subsection \<open>The \<^verbatim>\<open>catch\<close> block (lines 178 to 210)\<close>

definition catch_block :: "js_error \<Rightarrow> log_entry \<times> reply" where
  "catch_block err =
     (Log Error ''Error creating Shiprocket order''
        (Obj [(''error'', Str (message err)),
              (''response'',
                 case response err of
                   Some r \<Rightarrow> Obj [(''status'', Num (Fin (of_nat (resp_status r)))),
                                   (''data'', resp_data r)]
                 | None \<Rightarrow> Null)]),
      case response err of
        Some r \<Rightarrow>
          if resp_status r = 401 then
            \<lparr>res_status = 401,
             res_json = Obj [(''success'', Bool False),
                             (''error'', Str ''Shiprocket authentication failed''),
                             (''details'', Str ''Invalid or expired Shiprocket token'')]\<rparr>
          else if resp_status r = 422 then
            \<lparr>res_status = 422,
             res_json = Obj [(''success'', Bool False),
                             (''error'', Str ''Invalid order data for Shiprocket''),
                             (''details'', resp_data r)]\<rparr>
          else
            \<lparr>res_status = 500,
             res_json = Obj [(''success'', Bool False),
                             (''error'', Str ''Failed to create order in Shiprocket''),
                             (''details'', Str (message err))]\<rparr>
      | None \<Rightarrow>
          \<lparr>res_status = 500,
           res_json = Obj [(''success'', Bool False),
                           (''error'', Str ''Failed to create order in Shiprocket''),
                           (''details'', Str (message err))]\<rparr>)"

subsection \<open>The handler\<close>

text \<open>
  One run on a parsed body: what was logged, what was sent to the provider, and the
  status and JSON body of the answer.
\<close>

record served =
  logged :: "log_entry list"
  sent :: "http_request list"
  answer :: reply

definition create_order :: "world \<Rightarrow> jsval \<Rightarrow> served" where
  "create_order w body =
     (let t = try_block w body in
      case result t of
        Inr r \<Rightarrow> \<lparr>logged = logs t, sent = calls t, answer = r\<rparr>
      | Inl err \<Rightarrow>
          (case catch_block err of (entry, r) \<Rightarrow>
             \<lparr>logged = logs t @ [entry], sent = calls t, answer = r\<rparr>))"

section \<open>The validator's contract, in the specification's words\<close>

text \<open>
  Section 4.1 of the specification lists four checks. They are written here from its
  words, apart from the code, to be compared with the handler.
\<close>

fun nonempty_array :: "jsval \<Rightarrow> bool" where
  "nonempty_array (Arr (_ # _)) = True"
| "nonempty_array _ = False"

text \<open>1. \<open>orderId\<close>, \<open>cart\<close> (non-empty array), \<open>formData\<close>, \<open>paymentId\<close> all present.\<close>

definition spec_presence :: "jsval \<Rightarrow> bool" where
  "spec_presence body \<longleftrightarrow>
     truthy (read body ''orderId'') \<and> nonempty_array (read body ''cart'')
     \<and> truthy (read body ''formData'') \<and> truthy (read body ''paymentId'')"

text \<open>2. All of \<open>formData.name/email/phone/address/pincode/state\<close> present.\<close>

definition spec_form :: "jsval \<Rightarrow> bool" where
  "spec_form body \<longleftrightarrow>
     list_all (\<lambda>k. truthy (read (read body ''formData'') k))
       [''name'', ''email'', ''phone'', ''address'', ''pincode'', ''state'']"

text \<open>3. Every cart item has non-empty \<open>id\<close>/\<open>name\<close>, finite \<open>price\<close>, finite \<open>quantity\<close> > 0.\<close>

fun finite_number :: "jsval \<Rightarrow> bool" where
  "finite_number (Num (Fin _)) = True"
| "finite_number _ = False"

fun positive_number :: "jsval \<Rightarrow> bool" where
  "positive_number (Num (Fin q)) = (0 < q)"
| "positive_number _ = False"

definition spec_item :: "jsval \<Rightarrow> bool" where
  "spec_item item \<longleftrightarrow>
     truthy (read item ''id'') \<and> truthy (read item ''name'')
     \<and> finite_number (read item ''price'') \<and> positive_number (read item ''quantity'')"

definition spec_cart :: "jsval \<Rightarrow> bool" where
  "spec_cart body \<longleftrightarrow> list_all spec_item (elements (read body ''cart''))"

text \<open>4. \<open>totalAmount\<close> is a finite number \<ge> 0.\<close>

fun nonnegative_number :: "jsval \<Rightarrow> bool" where
  "nonnegative_number (Num (Fin q)) = (0 \<le> q)"
| "nonnegative_number _ = False"

definition spec_total :: "jsval \<Rightarrow> bool" where
  "spec_total body \<longleftrightarrow> nonnegative_number (read body ''totalAmount'')"

definition valid_submission :: "jsval \<Rightarrow> bool" where
  "valid_submission body \<longleftrightarrow>
     spec_presence body \<and> spec_form body \<and> spec_cart body \<and> spec_total body"

text \<open>
  The handler's own cart test (the \<^verbatim>\<open>find\<close> of line 92 and the \<^verbatim>\<open>if\<close> of line 93):
  it fails when \<^verbatim>\<open>find\<close> returns a truthy item and passes when it returns a falsy one.
\<close>

definition cart_test_fails :: "world \<Rightarrow> jsval \<Rightarrow> bool" where
  "cart_test_fails w body \<longleftrightarrow>
     (case array_find (invalid_item w) (elements (read body ''cart'')) of
        Inr invalidItem \<Rightarrow> truthy invalidItem | Inl e \<Rightarrow> False)"

definition cart_test_passes :: "world \<Rightarrow> jsval \<Rightarrow> bool" where
  "cart_test_passes w body \<longleftrightarrow>
     (case array_find (invalid_item w) (elements (read body ''cart'')) of
        Inr invalidItem \<Rightarrow> \<not> truthy invalidItem | Inl e \<Rightarrow> False)"

text \<open>
  Section 4.2: each line item becomes
  \<^verbatim>\<open>{name, sku: "SKU-"+id, units: quantity, selling_price: price, discount: 0, tax: 0, hsn: "4901"}\<close>,
  and the weight is \<open>0.5 \<times> \<Sum> quantity\<close>, in the arithmetic of the language: the
  quantities are added from the left, starting from 0. \<open>string_of w v\<close> is the string
  of a value that has one.
\<close>

definition string_of :: "world \<Rightarrow> jsval \<Rightarrow> string" where
  "string_of w v = (case to_string w v of Inr s \<Rightarrow> s | Inl e \<Rightarrow> [])"

definition spec_order_item :: "world \<Rightarrow> jsval \<Rightarrow> jsval" where
  "spec_order_item w item =
     Obj [(''name'', read item ''name''),
          (''sku'', Str (''SKU-'' @ string_of w (read item ''id''))),
          (''units'', read item ''quantity''),
          (''selling_price'', read item ''price''),
          (''discount'', Num (Fin 0)),
          (''tax'', Num (Fin 0)),
          (''hsn'', Str ''4901'')]"

fun number_of :: "jsval \<Rightarrow> jsnum" where
  "number_of (Num n) = n"
| "number_of _ = NaN"

definition quantity_sum :: "jsval list \<Rightarrow> jsnum" where
  "quantity_sum items = foldl (\<lambda>s item. num_add s (number_of (read item ''quantity''))) (Fin 0) items"

text \<open>
  Two worlds run the same engine when the conversions of the language agree; one world
  with the surroundings of another keeps its engine and takes the environment, the
  clock and the provider of the other.
\<close>

text \<open>
  The mapping of a cart goes through when the \<open>id\<close> of every item has a string: it is
  not an object with an entry \<^verbatim>\<open>"toString"\<close>, nor an array that holds one.
\<close>

definition has_string :: "world \<Rightarrow> jsval \<Rightarrow> bool" where
  "has_string w v = (case to_string w v of Inr s \<Rightarrow> True | Inl e \<Rightarrow> False)"

definition mappable :: "world \<Rightarrow> jsval \<Rightarrow> bool" where
  "mappable w body \<longleftrightarrow>
     list_all (\<lambda>item. has_string w (read item ''id'')) (elements (read body ''cart''))"

definition same_engine :: "world \<Rightarrow> world \<Rightarrow> bool" where
  "same_engine w w' \<longleftrightarrow>
     number_to_string w = number_to_string w' \<and> string_to_number w = string_to_number w'
     \<and> type_error_message w = type_error_message w'"

definition with_surroundings :: "world \<Rightarrow> world \<Rightarrow> world" where
  "with_surroundings w u =
     w\<lparr>env_SHIPROCKET_TOKEN := env_SHIPROCKET_TOKEN u,
       env_SHIPROCKET_PICKUP_LOCATION := env_SHIPROCKET_PICKUP_LOCATION u,
       default_token := default_token u,
       date_toISOString := date_toISOString u,
       axios_post := axios_post u\<rparr>"

text \<open>The 400 answer with a reason, as section 6 gives it.\<close>

definition rejected :: "string \<Rightarrow> reply" where
  "rejected reason =
     \<lparr>res_status = 400, res_json = Obj [(''success'', Bool False), (''error'', Str reason)]\<rparr>"

subsection \<open>Surroundings for the examples\<close>

text \<open>
  A provider that accepts every order, one that answers with an error status, and one
  that cannot be reached.
\<close>

definition provider_accepts :: "http_request \<Rightarrow> js_error + http_response" where
  "provider_accepts rq =
     Inr \<lparr>resp_status = 200, resp_data = Obj [(''order_id'', Num (Fin 9001))]\<rparr>"

definition provider_answers :: "nat \<Rightarrow> jsval \<Rightarrow> http_request \<Rightarrow> js_error + http_response" where
  "provider_answers code d rq =
     Inl (JsError ''Request failed'' (Some \<lparr>resp_status = code, resp_data = d\<rparr>))"

definition provider_unreachable :: "http_request \<Rightarrow> js_error + http_response" where
  "provider_unreachable rq = Inl (JsError ''timeout of 10000ms exceeded'' None)"

text \<open>
  A world with no environment variable set. Its engine conversions are placeholders:
  no example depends on how a number is printed or read.
\<close>

definition world_at ::
  "string \<Rightarrow> (http_request \<Rightarrow> js_error + http_response) \<Rightarrow> world" where
  "world_at now post =
     \<lparr>env_SHIPROCKET_TOKEN = None,
      env_SHIPROCKET_PICKUP_LOCATION = None,
      default_token = ''your-default-shiprocket-token-here'',
      date_toISOString = now,
      axios_post = post,
      number_to_string = (\<lambda>n. ''NaN''),
      string_to_number = (\<lambda>s. NaN),
      type_error_message = (\<lambda>v k. ''Cannot read properties of null'')\<rparr>"

text \<open>The shipping form and the line item of the example in section 8.\<close>

definition form_A :: jsval where
  "form_A = Obj [(''name'', Str ''A''), (''email'', Str ''a@x.com''), (''phone'', Str ''123''),
                 (''address'', Str ''addr''), (''pincode'', Str ''110001''), (''state'', Str ''DL'')]"

definition item_B1 :: jsval where
  "item_B1 = Obj [(''id'', Str ''B1''), (''name'', Str ''Book''),
                  (''price'', Num (Fin 100)), (''quantity'', Num (Fin 2))]"

text \<open>A submission with the order id, the form and the payment id of that example.\<close>

definition submission :: "jsval \<Rightarrow> jsval \<Rightarrow> jsval" where
  "submission cart totalAmount =
     Obj [(''orderId'', Str ''O1''), (''cart'', cart), (''formData'', form_A),
          (''totalAmount'', totalAmount), (''paymentId'', Str ''P1'')]"

definition example_submission :: jsval where
  "example_submission = submission (Arr [item_B1]) (Num (Fin 200))"

text \<open>The same submission with the two optional charges given.\<close>

definition submission_with_charges :: "jsval \<Rightarrow> jsval \<Rightarrow> jsval" where
  "submission_with_charges shippingCost couponDiscount =
     Obj [(''orderId'', Str ''O1''), (''cart'', Arr [item_B1]), (''formData'', form_A),
          (''totalAmount'', Num (Fin 200)), (''shippingCost'', shippingCost),
          (''couponDiscount'', couponDiscount), (''paymentId'', Str ''P1'')]"

text \<open>A line item whose \<open>id\<close> is the number 0.\<close>

definition item_id_zero :: jsval where
  "item_id_zero = Obj [(''id'', Num (Fin 0)), (''name'', Str ''Book''),
                       (''price'', Num (Fin 100)), (''quantity'', Num (Fin 2))]"

text \<open>The same submission from a form that also names a city.\<close>

definition submission_in_city :: "string \<Rightarrow> jsval" where
  "submission_in_city city =
     Obj [(''orderId'', Str ''O1''), (''cart'', Arr [item_B1]),
          (''formData'', Obj [(''name'', Str ''A''), (''email'', Str ''a@x.com''),
             (''phone'', Str ''123''), (''address'', Str ''addr''), (''city'', Str city),
             (''pincode'', Str ''110001''), (''state'', Str ''DL'')]),
          (''totalAmount'', Num (Fin 200)), (''paymentId'', Str ''P1'')]"

definition accepting_world :: world where
  "accepting_world = world_at ''2025-07-14T09:30:00.000Z'' provider_accepts"

section \<open>Properties of the handler\<close>

subsection \<open>How the handler's tests relate to the four checks\<close>

lemma presence_test:
  "(\<not> truthy (read body ''orderId'') \<or> \<not> truthy (read body ''cart'')
      \<or> \<not> isArray (read body ''cart'') \<or> length (elements (read body ''cart'')) = 0
      \<or> \<not> truthy (read body ''formData'') \<or> \<not> truthy (read body ''paymentId''))
   \<longleftrightarrow> \<not> spec_presence body"
proof (cases "read body ''cart''")
  case (Arr xs)
  then show ?thesis by (cases xs) (auto simp: spec_presence_def)
qed (auto simp: spec_presence_def)

lemma form_test:
  "(\<not> truthy (read fd ''name'') \<or> \<not> truthy (read fd ''email'')
      \<or> \<not> truthy (read fd ''phone'') \<or> \<not> truthy (read fd ''address'')
      \<or> \<not> truthy (read fd ''pincode'') \<or> \<not> truthy (read fd ''state''))
   \<longleftrightarrow> \<not> spec_form body" if "fd = read body ''formData''"
  using that by (auto simp: spec_form_def)

lemma spec_presence_not_nullish: "spec_presence body \<Longrightarrow> \<not> nullish body"
  by (cases body) (auto simp: spec_presence_def)

lemma try_block_missing:
  assumes "\<not> nullish body" and "\<not> spec_presence body"
  shows "result (try_block w body) = Inr (rejected ''Missing required order data'')"
    and "calls (try_block w body) = []"
  using assms presence_test [of body]
  by (simp_all add: try_block_def Let_def reject_def respond_def rejected_def)

lemma create_order_result:
  "result (try_block w body) = Inr r \<Longrightarrow> answer (create_order w body) = r"
  by (simp add: create_order_def Let_def)

lemma create_order_sent: "sent (create_order w body) = calls (try_block w body)"
  by (simp add: create_order_def Let_def split: sum.splits prod.splits)

lemma js_le_zero: "js_le w (Num (Fin q)) (Num (Fin 0)) = Inr (q \<le> 0)"
  by (auto simp: js_le_def bind_thrown_def)

lemma js_lt_zero: "js_lt w (Num (Fin q)) (Num (Fin 0)) = Inr (q < 0)"
  by (simp add: js_lt_def bind_thrown_def)

lemma isFinite_finite_number: "Number_isFinite v \<longleftrightarrow> finite_number v"
  by (induction v rule: finite_number.induct) simp_all

lemma quantity_test:
  "(if \<not> Number_isFinite v then Inr True else js_le w v (Num (Fin 0)))
   = Inr (\<not> positive_number v)"
  by (induction v rule: positive_number.induct) (auto simp: js_le_zero)

lemma total_test: "invalid_total w v = Inr (\<not> nonnegative_number v)"
  by (induction v rule: nonnegative_number.induct) (auto simp: invalid_total_def js_lt_zero)

lemma invalid_item_spec:
  "\<not> nullish item \<Longrightarrow> invalid_item w item = Inr (\<not> spec_item item)"
  using quantity_test [of "read item ''quantity''" w]
  by (auto simp: invalid_item_def get_prop_def bind_thrown_def spec_item_def
      isFinite_finite_number)

lemma invalid_item_nullish:
  "nullish item \<Longrightarrow> invalid_item w item = Inl (JsError (type_error_message w item ''id'') None)"
  by (simp add: invalid_item_def get_prop_def bind_thrown_def)

lemma spec_item_not_nullish: "spec_item item \<Longrightarrow> \<not> nullish item"
  by (cases item) (auto simp: spec_item_def)

lemma array_find_valid:
  "list_all spec_item xs \<Longrightarrow> array_find (invalid_item w) xs = Inr Undefined"
  by (induction xs) (auto simp: invalid_item_spec spec_item_not_nullish bind_thrown_def)

lemma array_find_first:
  "list_all spec_item pre \<Longrightarrow> \<not> spec_item bad \<Longrightarrow> \<not> nullish bad \<Longrightarrow>
   array_find (invalid_item w) (pre @ bad # post) = Inr bad"
  by (induction pre) (auto simp: invalid_item_spec spec_item_not_nullish bind_thrown_def)

lemma try_block_incomplete:
  assumes "spec_presence body" and "\<not> spec_form body"
  shows "result (try_block w body) = Inr (rejected ''Incomplete shipping details'')"
    and "calls (try_block w body) = []"
  using assms presence_test [of body] form_test [OF refl, of body] spec_presence_not_nullish [of body]
  by (simp_all add: try_block_def Let_def reject_def respond_def rejected_def)

lemma try_block_cart:
  assumes "spec_presence body" and "spec_form body"
    and "array_find (invalid_item w) (elements (read body ''cart'')) = Inr v" and "truthy v"
  shows "result (try_block w body) = Inr (rejected ''Invalid cart item data'')"
    and "calls (try_block w body) = []"
    and "logs (try_block w body) = [Log Error ''Invalid cart item detected'' (Obj [(''invalidItem'', v)])]"
  using assms presence_test [of body] form_test [OF refl, of body] spec_presence_not_nullish [of body]
  by (simp_all add: try_block_def Let_def reject_def respond_def rejected_def)

lemma try_block_throw:
  assumes "spec_presence body" and "spec_form body"
    and "array_find (invalid_item w) (elements (read body ''cart'')) = Inl e"
  shows "result (try_block w body) = Inl e"
    and "calls (try_block w body) = []"
  using assms presence_test [of body] form_test [OF refl, of body] spec_presence_not_nullish [of body]
  by (simp_all add: try_block_def Let_def)

lemma try_block_total:
  assumes "spec_presence body" and "spec_form body"
    and "array_find (invalid_item w) (elements (read body ''cart'')) = Inr v" and "\<not> truthy v"
    and "\<not> spec_total body"
  shows "result (try_block w body) = Inr (rejected ''Total amount must be a valid non-negative number'')"
    and "calls (try_block w body) = []"
  using assms presence_test [of body] form_test [OF refl, of body] spec_presence_not_nullish [of body]
  by (simp_all add: try_block_def Let_def reject_def respond_def rejected_def spec_total_def
      total_test)

lemma try_block_forward:
  assumes "spec_presence body" and "spec_form body"
    and "array_find (invalid_item w) (elements (read body ''cart'')) = Inr v" and "\<not> truthy v"
    and "spec_total body"
  shows "try_block w body =
     forward w (read body ''orderId'') (read body ''cart'') (read body ''formData'')
       (read body ''totalAmount'') (read body ''shippingCost'') (read body ''couponDiscount'')"
  using assms presence_test [of body] form_test [OF refl, of body] spec_presence_not_nullish [of body]
  by (simp add: try_block_def Let_def spec_total_def total_test)

subsection \<open>Mapping and forwarding\<close>

lemma has_string_eq: "has_string w v \<Longrightarrow> to_string w v = Inr (string_of w v)"
  by (simp add: has_string_def string_of_def split: sum.splits)

lemma no_string_throws: "\<not> has_string w v \<Longrightarrow> \<exists>e. to_string w v = Inl e"
  by (simp add: has_string_def split: sum.splits)

lemma has_string_primitive:
  "has_string w Undefined" "has_string w Null" "has_string w (Bool b)" "has_string w (Num n)"
  "has_string w (Str s)"
  by (simp_all add: has_string_def)

lemma string_of_Str: "string_of w (Str s) = s"
  by (simp add: string_of_def)

lemma order_item_spec:
  "\<not> nullish item \<Longrightarrow> has_string w (read item ''id'')
   \<Longrightarrow> order_item w item = Inr (spec_order_item w item)"
  by (simp add: order_item_def get_prop_def bind_thrown_def spec_order_item_def has_string_eq)

lemma order_item_throws:
  "\<not> nullish item \<Longrightarrow> \<not> has_string w (read item ''id'') \<Longrightarrow> \<exists>e. order_item w item = Inl e"
  using no_string_throws [of w "read item ''id''"]
  by (auto simp: order_item_def get_prop_def bind_thrown_def)

lemma array_map_items:
  "list_all (\<lambda>x. \<not> nullish x) xs \<Longrightarrow> list_all (\<lambda>x. has_string w (read x ''id'')) xs
   \<Longrightarrow> array_map (order_item w) xs = Inr (map (spec_order_item w) xs)"
  by (induction xs) (auto simp: order_item_spec bind_thrown_def)

lemma array_map_throws:
  "list_all (\<lambda>x. \<not> nullish x) xs \<Longrightarrow> \<not> list_all (\<lambda>x. has_string w (read x ''id'')) xs
   \<Longrightarrow> \<exists>e. array_map (order_item w) xs = Inl e"
proof (induction xs)
  case Nil
  then show ?case by simp
next
  case (Cons x xs)
  show ?case
  proof (cases "has_string w (read x ''id'')")
    case True
    with Cons obtain e where "array_map (order_item w) xs = Inl e" by auto
    with True Cons.prems(1) show ?thesis
      by (simp add: order_item_spec bind_thrown_def)
  next
    case False
    with Cons.prems(1) order_item_throws [of x w] obtain e where "order_item w x = Inl e"
      by auto
    then show ?thesis by (simp add: bind_thrown_def)
  qed
qed

lemma js_plus_numbers: "js_plus w (Num a) (Num b) = Inr (Num (num_add a b))"
  by (simp add: js_plus_def bind_thrown_def)

lemma js_times_numbers: "js_times w (Num a) (Num b) = Inr (Num (num_mul a b))"
  by (simp add: js_times_def bind_thrown_def)

lemma spec_item_quantity: "spec_item x \<Longrightarrow> read x ''quantity'' = Num (number_of (read x ''quantity''))"
  by (cases "read x ''quantity''") (auto simp: spec_item_def)

lemma add_quantity_valid:
  assumes "spec_item x"
  shows "add_quantity w (Num n) x = Inr (Num (num_add n (number_of (read x ''quantity''))))"
proof -
  from assms have "\<not> nullish x" by (rule spec_item_not_nullish)
  then have "add_quantity w (Num n) x = js_plus w (Num n) (read x ''quantity'')"
    by (simp add: add_quantity_def get_prop_def bind_thrown_def)
  also have "\<dots> = js_plus w (Num n) (Num (number_of (read x ''quantity'')))"
    using spec_item_quantity [OF assms] by simp
  finally show ?thesis by (simp only: js_plus_numbers)
qed

lemma array_reduce_valid:
  "list_all spec_item xs \<Longrightarrow>
   array_reduce (add_quantity w) (Num n) xs
   = Inr (Num (foldl (\<lambda>s item. num_add s (number_of (read item ''quantity''))) n xs))"
  by (induction xs arbitrary: n) (simp_all add: add_quantity_valid bind_thrown_def)

lemma list_all_spec_item_not_nullish: "list_all spec_item xs \<Longrightarrow> list_all (\<lambda>x. \<not> nullish x) xs"
  by (induction xs) (auto simp: spec_item_not_nullish)

lemma send_order_calls: "calls (send_order w ls oid p) = [create_request w p]"
  by (simp add: send_order_def Let_def split: sum.splits)

lemma send_order_result: "result (send_order w ls oid p) = relay w p"
  by (simp add: send_order_def relay_def Let_def split: sum.splits)

lemma forward_calls:
  assumes "provider_payload w body = Inr p"
  shows "calls (forward w (read body ''orderId'') (read body ''cart'') (read body ''formData'')
       (read body ''totalAmount'') (read body ''shippingCost'') (read body ''couponDiscount''))
     = [create_request w p]"
  using assms
  by (auto simp: provider_payload_def forward_def Let_def bind_thrown_def send_order_calls
      split: sum.splits)

lemma forward_result:
  assumes "provider_payload w body = Inr p"
  shows "result (forward w (read body ''orderId'') (read body ''cart'') (read body ''formData'')
       (read body ''totalAmount'') (read body ''shippingCost'') (read body ''couponDiscount''))
     = relay w p"
  using assms
  by (auto simp: provider_payload_def forward_def Let_def bind_thrown_def send_order_result
      split: sum.splits)

lemma forward_throws:
  assumes "provider_payload w body = Inl e"
  shows "calls (forward w (read body ''orderId'') (read body ''cart'') (read body ''formData'')
       (read body ''totalAmount'') (read body ''shippingCost'') (read body ''couponDiscount''))
     = []"
    and "result (forward w (read body ''orderId'') (read body ''cart'') (read body ''formData'')
       (read body ''totalAmount'') (read body ''shippingCost'') (read body ''couponDiscount''))
     = Inl e"
  using assms
  by (auto simp: provider_payload_def forward_def Let_def bind_thrown_def split: sum.splits)

lemma forward_warns:
  "Log Warn ''Total amount is zero, proceeding with warning''
      (Obj [(''orderId'', oid), (''totalAmount'', Num (Fin 0))])
   \<in> set (logs (forward w oid cart fd (Num (Fin 0)) sc cd))"
  by (simp add: forward_def send_order_def Let_def split: sum.splits)

text \<open>The fields of the payload, once the three computations of the mapping are through.\<close>

lemma provider_payload_fields:
  assumes "array_map (order_item w) (elements (read body ''cart'')) = Inr orderItems"
    and "array_reduce (add_quantity w) (Num (Fin 0)) (elements (read body ''cart'')) = Inr qsum"
    and "js_times w (Num (Fin (1 / 2))) qsum = Inr weight"
  shows "\<exists>p. provider_payload w body = Inr p
    \<and> read p ''order_id'' = read body ''orderId''
    \<and> read p ''order_date'' = Str (orderDate w)
    \<and> read p ''pickup_location'' = Str (env_or (env_SHIPROCKET_PICKUP_LOCATION w) ''Primary'')
    \<and> read p ''billing_customer_name'' = read (read body ''formData'') ''name''
    \<and> read p ''billing_address'' = read (read body ''formData'') ''address''
    \<and> read p ''billing_city'' = js_or (read (read body ''formData'') ''city'') (Str [])
    \<and> read p ''billing_pincode'' = read (read body ''formData'') ''pincode''
    \<and> read p ''billing_state'' = read (read body ''formData'') ''state''
    \<and> read p ''billing_email'' = read (read body ''formData'') ''email''
    \<and> read p ''billing_phone'' = read (read body ''formData'') ''phone''
    \<and> read p ''shipping_customer_name'' = read (read body ''formData'') ''name''
    \<and> read p ''shipping_address'' = read (read body ''formData'') ''address''
    \<and> read p ''shipping_city'' = js_or (read (read body ''formData'') ''city'') (Str [])
    \<and> read p ''shipping_pincode'' = read (read body ''formData'') ''pincode''
    \<and> read p ''shipping_state'' = read (read body ''formData'') ''state''
    \<and> read p ''shipping_email'' = read (read body ''formData'') ''email''
    \<and> read p ''shipping_phone'' = read (read body ''formData'') ''phone''
    \<and> read p ''order_items'' = Arr orderItems
    \<and> read p ''payment_method'' = Str ''Prepaid''
    \<and> read p ''shipping_charges'' = js_or (read body ''shippingCost'') (Num (Fin 0))
    \<and> read p ''total_discount'' = js_or (read body ''couponDiscount'') (Num (Fin 0))
    \<and> read p ''sub_total'' = read body ''totalAmount''
    \<and> read p ''length'' = Num (Fin 30)
    \<and> read p ''breadth'' = Num (Fin 20)
    \<and> read p ''height'' = Num (Fin 5)
    \<and> read p ''weight'' = weight"
  using assms
  by (simp add: provider_payload_def bind_thrown_def payload_def)

subsection \<open>Valid submissions\<close>

lemma submission_reads:
  "read (submission c t) ''orderId'' = Str ''O1''"
  "read (submission c t) ''cart'' = c"
  "read (submission c t) ''formData'' = form_A"
  "read (submission c t) ''totalAmount'' = t"
  "read (submission c t) ''paymentId'' = Str ''P1''"
  "read (submission c t) ''shippingCost'' = Undefined"
  "read (submission c t) ''couponDiscount'' = Undefined"
  by (simp_all add: submission_def)

lemma submission_presence: "spec_presence (submission (Arr (x # xs)) t)"
  by (simp add: spec_presence_def submission_reads form_A_def)

lemma submission_form: "spec_form (submission c t)"
  by (simp add: spec_form_def submission_reads form_A_def)

lemma create_order_answer:
  "answer (create_order w body) =
     (case result (try_block w body) of Inr r \<Rightarrow> r | Inl e \<Rightarrow> snd (catch_block e))"
  by (simp add: create_order_def Let_def split: sum.splits prod.splits)

lemma catch_block_status:
  "res_status (snd (catch_block e)) = 401 \<or> res_status (snd (catch_block e)) = 422
   \<or> res_status (snd (catch_block e)) = 500"
  by (simp add: catch_block_def split: option.splits)

lemma relay_status:
  "relay w p = Inr r \<Longrightarrow> res_status r = 200"
  by (auto simp: relay_def respond_def split: sum.splits)

lemma answer_after_relay:
  assumes "result (try_block w body) = relay w p"
  shows "res_status (answer (create_order w body)) \<noteq> 400"
proof (cases "relay w p")
  case (Inl e)
  with assms catch_block_status [of e] show ?thesis
    by (auto simp: create_order_answer)
next
  case (Inr r)
  with assms relay_status [of w p r] show ?thesis
    by (simp add: create_order_answer)
qed

lemma valid_forward:
  assumes "valid_submission body"
  shows "try_block w body =
     forward w (read body ''orderId'') (read body ''cart'') (read body ''formData'')
       (read body ''totalAmount'') (read body ''shippingCost'') (read body ''couponDiscount'')"
  using assms array_find_valid [of "elements (read body ''cart'')" w]
  by (intro try_block_forward [where v = Undefined]) (simp_all add: valid_submission_def spec_cart_def)

lemma create_order_logged: "set (logs (try_block w body)) \<subseteq> set (logged (create_order w body))"
  by (auto simp: create_order_def Let_def split: sum.splits prod.splits)

lemma truthy_not_nullish: "truthy v \<Longrightarrow> \<not> nullish v"
  by (cases v) simp_all

lemma array_find_truthy:
  "list_all truthy pre \<Longrightarrow> truthy item \<Longrightarrow> \<not> spec_item item \<Longrightarrow>
   \<exists>v. array_find (invalid_item w) (pre @ item # post) = Inr v \<and> truthy v"
  by (induction pre) (auto simp: invalid_item_spec truthy_not_nullish bind_thrown_def)

lemma cart_test_fails_spec:
  assumes "elements (read body ''cart'') = pre @ item # post"
    and "list_all truthy pre" and "truthy item" and "\<not> spec_item item"
  shows "cart_test_fails w body"
  using array_find_truthy [OF assms(2-4), of w post] assms(1)
  by (auto simp: cart_test_fails_def)

lemma cart_test_passes_spec: "spec_cart body \<Longrightarrow> cart_test_passes w body"
  by (simp add: cart_test_passes_def spec_cart_def array_find_valid)

lemma read_defined_object:
  "read item k = v \<Longrightarrow> v \<noteq> Undefined \<Longrightarrow> k \<noteq> ''length'' \<Longrightarrow> \<exists>fs. item = Obj fs"
  by (cases item) (auto split: if_splits)

lemma valid_mapped:
  assumes "valid_submission body" and "mappable w body"
  shows "\<exists>p. provider_payload w body = Inr p
     \<and> sent (create_order w body) = [create_request w p]
     \<and> result (try_block w body) = relay w p
     \<and> read p ''order_items'' = Arr (map (spec_order_item w) (elements (read body ''cart'')))
     \<and> read p ''weight''
         = Num (num_mul (Fin (1 / 2)) (quantity_sum (elements (read body ''cart''))))"
proof -
  from assms(1) have items: "list_all spec_item (elements (read body ''cart''))"
    by (simp add: valid_submission_def spec_cart_def)
  from assms(2) have ids: "list_all (\<lambda>x. has_string w (read x ''id'')) (elements (read body ''cart''))"
    by (simp add: mappable_def)
  note m = array_map_items [OF list_all_spec_item_not_nullish [OF items] ids]
  note r = array_reduce_valid [OF items, of w "Fin 0"]
  from provider_payload_fields [OF m r js_times_numbers]
  obtain p where p: "provider_payload w body = Inr p"
    and oi: "read p ''order_items'' = Arr (map (spec_order_item w) (elements (read body ''cart'')))"
    and wt: "read p ''weight''
         = Num (num_mul (Fin (1 / 2))
             (foldl (\<lambda>s item. num_add s (number_of (read item ''quantity''))) (Fin 0)
                (elements (read body ''cart''))))"
    by (elim exE conjE) (rule that, assumption+)
  have "sent (create_order w body) = [create_request w p]"
    by (simp add: create_order_sent valid_forward [OF assms(1)] forward_calls [OF p])
  moreover have "result (try_block w body) = relay w p"
    by (simp add: valid_forward [OF assms(1)] forward_result [OF p])
  ultimately show ?thesis
    using p oi wt by (intro exI [of _ p] conjI) (simp_all only: quantity_sum_def)
qed

text \<open>
  A valid submission with an item whose \<open>id\<close> has no string: the mapping throws, nothing
  is sent and the \<^verbatim>\<open>catch\<close> block answers.
\<close>

lemma to_string_error:
  "to_string w v = Inl e \<Longrightarrow> response e = None"
  "to_strings w vs = Inl e \<Longrightarrow> response e = None"
  by (induction w v and w vs arbitrary: e and e rule: to_string_to_strings.induct)
    (auto simp: bind_thrown_def split: sum.splits if_splits)

lemma order_item_error: "order_item w x = Inl e \<Longrightarrow> response e = None"
  by (auto simp: order_item_def get_prop_def bind_thrown_def
      split: sum.splits if_splits dest: to_string_error(1))

lemma array_map_error: "array_map (order_item w) xs = Inl e \<Longrightarrow> response e = None"
  by (induction xs arbitrary: e)
    (auto simp: bind_thrown_def split: sum.splits dest: order_item_error)

lemma valid_unmappable:
  assumes "valid_submission body" and "\<not> mappable w body"
  shows "sent (create_order w body) = []"
    and "res_status (answer (create_order w body)) = 500"
proof -
  from assms(1) have items: "list_all spec_item (elements (read body ''cart''))"
    by (simp add: valid_submission_def spec_cart_def)
  from assms(2) have "\<not> list_all (\<lambda>x. has_string w (read x ''id'')) (elements (read body ''cart''))"
    by (simp add: mappable_def)
  from array_map_throws [OF list_all_spec_item_not_nullish [OF items] this]
  obtain e where e: "array_map (order_item w) (elements (read body ''cart'')) = Inl e" ..
  then have none: "response e = None" by (rule array_map_error)
  from e have "provider_payload w body = Inl e"
    by (simp add: provider_payload_def bind_thrown_def)
  note thrown = forward_throws [OF this]
  show "sent (create_order w body) = []"
    by (simp only: create_order_sent valid_forward [OF assms(1)] thrown(1))
  have "result (try_block w body) = Inl e"
    by (simp only: valid_forward [OF assms(1)] thrown(2))
  with none show "res_status (answer (create_order w body)) = 500"
    by (simp add: create_order_answer catch_block_def)
qed

text \<open>Whatever the body, at most one request is sent, and its outcome decides the answer.\<close>

lemma forward_calls_cases:
  "calls (forward w oid cart fd t sc cd) = []
   \<or> (\<exists>p. calls (forward w oid cart fd t sc cd) = [create_request w p]
          \<and> result (forward w oid cart fd t sc cd) = relay w p)"
  by (auto simp: forward_def Let_def send_order_calls send_order_result split: sum.splits)

lemma try_block_calls_cases:
  "calls (try_block w body) = []
   \<or> (\<exists>p. calls (try_block w body) = [create_request w p]
          \<and> result (try_block w body) = relay w p)"
  using forward_calls_cases [of w "read body ''orderId''" "read body ''cart''"
      "read body ''formData''" "read body ''totalAmount''" "read body ''shippingCost''"
      "read body ''couponDiscount''"]
  by (simp add: try_block_def Let_def split: sum.splits)

lemma forward_result_cases:
  "(\<exists>e. result (forward w oid cart fd t sc cd) = Inl e)
   \<or> (\<exists>p. result (forward w oid cart fd t sc cd) = relay w p)"
  by (auto simp: forward_def Let_def send_order_result split: sum.splits)

lemma valid_not_400:
  assumes "valid_submission body"
  shows "res_status (answer (create_order w body)) \<noteq> 400"
proof -
  from forward_result_cases [of w "read body ''orderId''" "read body ''cart''"
      "read body ''formData''" "read body ''totalAmount''" "read body ''shippingCost''"
      "read body ''couponDiscount''"]
  have "(\<exists>e. result (try_block w body) = Inl e) \<or> (\<exists>p. result (try_block w body) = relay w p)"
    by (simp only: valid_forward [OF assms])
  then show ?thesis
  proof (elim disjE exE)
    fix e assume "result (try_block w body) = Inl e"
    with catch_block_status [of e] show ?thesis
      by (auto simp: create_order_answer)
  next
    fix p assume "result (try_block w body) = relay w p"
    then show ?thesis by (rule answer_after_relay)
  qed
qed

subsection \<open>What the payload depends on\<close>

lemma same_engine_surroundings: "same_engine w w' \<Longrightarrow> w' = with_surroundings w w'"
  by (cases w, cases w') (simp add: same_engine_def with_surroundings_def)

lemma to_string_surroundings:
  "to_string (with_surroundings w u) v = to_string w v"
  "to_strings (with_surroundings w u) vs = to_strings w vs"
  by (induction w v and w vs rule: to_string_to_strings.induct)
    (simp_all add: with_surroundings_def cong: if_cong)

lemma to_primitive_surroundings: "to_primitive (with_surroundings w u) v = to_primitive w v"
  using to_string_surroundings(1) [of w u v] by (cases v) simp_all

lemma string_to_number_surroundings:
  "string_to_number (with_surroundings w u) = string_to_number w"
  by (simp add: with_surroundings_def)

lemma to_number_surroundings: "to_number (with_surroundings w u) v = to_number w v"
  using to_string_surroundings(1) [of w u v]
  by (cases v) (simp_all add: string_to_number_surroundings)

lemma js_plus_surroundings: "js_plus (with_surroundings w u) a b = js_plus w a b"
  by (simp add: js_plus_def to_primitive_surroundings to_string_surroundings
      to_number_surroundings cong: if_cong)

lemma js_times_surroundings: "js_times (with_surroundings w u) a b = js_times w a b"
  by (simp add: js_times_def to_number_surroundings)

lemma get_prop_surroundings: "get_prop (with_surroundings w u) v k = get_prop w v k"
  by (simp add: get_prop_def with_surroundings_def)

lemma order_item_surroundings: "order_item (with_surroundings w u) = order_item w"
  by (intro ext) (simp add: order_item_def get_prop_surroundings to_string_surroundings)

lemma add_quantity_surroundings: "add_quantity (with_surroundings w u) = add_quantity w"
  by (intro ext) (simp add: add_quantity_def get_prop_surroundings js_plus_surroundings)

lemma orderDate_surroundings: "orderDate (with_surroundings w u) = orderDate u"
  by (simp add: orderDate_def with_surroundings_def)

lemma pickup_surroundings:
  "env_SHIPROCKET_PICKUP_LOCATION (with_surroundings w u) = env_SHIPROCKET_PICKUP_LOCATION u"
  by (simp add: with_surroundings_def)

lemma provider_payload_same:
  assumes "same_engine w w'" and "orderDate w = orderDate w'"
    and "env_SHIPROCKET_PICKUP_LOCATION w = env_SHIPROCKET_PICKUP_LOCATION w'"
  shows "provider_payload w body = provider_payload w' body"
proof -
  have "provider_payload (with_surroundings w w') body = provider_payload w body"
    using assms(2,3)
    by (simp add: provider_payload_def payload_def order_item_surroundings
        add_quantity_surroundings js_times_surroundings orderDate_surroundings
        pickup_surroundings)
  with same_engine_surroundings [OF assms(1)] show ?thesis by simp
qed

lemma provider_payload_other_fields:
  assumes "same_engine w w'"
    and "provider_payload w body = Inr p" and "provider_payload w' body = Inr p'"
    and "k \<noteq> ''order_date''" and "k \<noteq> ''pickup_location''"
  shows "read p k = read p' k"
proof -
  from same_engine_surroundings [OF assms(1)] assms(3)
  have "provider_payload (with_surroundings w w') body = Inr p'" by simp
  with assms(2,4,5) show ?thesis
    by (auto simp: provider_payload_def payload_def order_item_surroundings
        add_quantity_surroundings js_times_surroundings bind_thrown_def split: sum.splits)
qed

subsection \<open>Rounding is exact on the numbers of binary64\<close>

lemma pow2_powi: "pow2 k = 2 powi k"
  by (simp add: pow2_def power_int_def inverse_eq_divide power_one_over)

lemma pow2_pos: "0 < pow2 k"
  by (simp add: pow2_powi)

lemma pow2_add: "pow2 (i + j) = pow2 i * pow2 j"
  by (simp add: pow2_powi power_int_add)

lemma pow2_mono: "i \<le> j \<Longrightarrow> pow2 i \<le> pow2 j"
  by (simp add: pow2_powi power_int_increasing)

lemma pow2_nat: "0 \<le> k \<Longrightarrow> pow2 k = of_int (2 ^ nat k)"
  by (simp add: pow2_def)

lemma ilog2_le:
  assumes "0 < x"
  shows "pow2 (ilog2 x) \<le> x"
proof -
  obtain a b where q: "quotient_of x = (a, b)" by (cases "quotient_of x")
  then have b: "0 < b" and x: "x = of_int a / of_int b"
    by (simp_all add: quotient_of_denom_pos quotient_of_div)
  with assms have a: "0 < a"
    by (simp add: zero_less_divide_iff)
  let ?k = "bitlen a - bitlen b"
  show ?thesis
  proof (cases "pow2 ?k \<le> x")
    case True
    with q show ?thesis by (simp add: ilog2_def Let_def)
  next
    case False
    from a have la: "1 \<le> bitlen a" by (simp add: bitlen_alt_def)
    from bitlen_bounds [OF a] have "2 ^ nat (bitlen a - 1) \<le> a" by simp
    then have "(of_int (2 ^ nat (bitlen a - 1)) :: rat) \<le> of_int a"
      by (simp only: of_int_le_iff)
    with la have lo: "pow2 (bitlen a - 1) \<le> of_int a"
      by (simp add: pow2_nat)
    from bitlen_bounds [OF b] have "b \<le> 2 ^ nat (bitlen b)" by simp
    then have "(of_int b :: rat) \<le> of_int (2 ^ nat (bitlen b))"
      by (simp only: of_int_le_iff)
    then have hi: "of_int b \<le> pow2 (bitlen b)"
      by (simp add: pow2_nat bitlen_nonneg)
    have "pow2 (?k - 1) = pow2 (bitlen a - 1) / pow2 (bitlen b)"
      using pow2_add [of "?k - 1" "bitlen b"] pow2_pos [of "bitlen b"]
      by (simp add: field_simps)
    also have "\<dots> \<le> of_int a / of_int b"
      using lo hi b pow2_pos [of "bitlen a - 1"]
      by (intro frac_le) simp_all
    finally show ?thesis
      using False q x by (simp add: ilog2_def Let_def)
  qed
qed

lemma round_half_even_of_int: "round_half_even (of_int m) = m"
  by (simp add: round_half_even_def)

lemma round64_exact:
  assumes x: "x = of_int m * pow2 e" and m: "\<bar>m\<bar> < 2 ^ 53" and e: "- 1074 \<le> e"
    and fin: "\<bar>x\<bar> < pow2 1024"
  shows "round64 x = Fin x"
proof (cases "x = 0")
  case True
  then show ?thesis by (simp add: round64_def)
next
  case False
  define a where "a = \<bar>x\<bar>"
  define e' where "e' = max (ilog2 a - 52) (- 1074)"
  from False have pos: "0 < a" by (simp add: a_def)
  have a: "a = of_int \<bar>m\<bar> * pow2 e"
    using pow2_pos [of e] by (simp add: a_def x abs_mult)
  from m have "(of_int \<bar>m\<bar> :: rat) < of_int (2 ^ 53)"
    by (simp only: of_int_less_iff)
  then have "a < of_int (2 ^ 53) * pow2 e"
    using pow2_pos [of e] by (simp only: a mult_strict_right_mono)
  also have "of_int (2 ^ 53) * pow2 e = pow2 (53 + e)"
    by (simp add: pow2_add pow2_nat)
  finally have "pow2 (ilog2 a) < pow2 (53 + e)"
    using ilog2_le [OF pos] by simp
  then have "ilog2 a < 53 + e"
    using pow2_mono [of "53 + e" "ilog2 a"] by (cases "ilog2 a < 53 + e") simp_all
  with e have le: "e' \<le> e" by (simp add: e'_def)
  define d where "d = nat (e - e')"
  from le have d: "e = e' + int d" by (simp add: d_def)
  have "pow2 (e' + int d) = pow2 e' * pow2 (int d)" by (rule pow2_add)
  then have split: "pow2 e = pow2 e' * of_int (2 ^ d)"
    by (simp add: d [symmetric] pow2_nat)
  have "a / pow2 e' = of_int \<bar>m\<bar> * (pow2 e' * of_int (2 ^ d)) / pow2 e'"
    by (simp only: a split)
  also have "\<dots> = of_int (\<bar>m\<bar> * 2 ^ d)"
    using pow2_pos [of e'] by simp
  finally have quot: "a / pow2 e' = of_int (\<bar>m\<bar> * 2 ^ d)" .
  have "of_int (round_half_even (a / pow2 e')) * pow2 e' = a / pow2 e' * pow2 e'"
    by (simp only: quot round_half_even_of_int)
  also have "\<dots> = a"
    using pow2_pos [of e'] by simp
  finally have r: "of_int (round_half_even (a / pow2 e')) * pow2 e' = a" .
  from fin have "\<not> pow2 1024 \<le> a" by (simp add: a_def)
  with False r show ?thesis
    by (simp add: round64_def Let_def a_def [symmetric] e'_def [symmetric])
      (simp add: a_def)
qed

lemma round64_of_nat:
  assumes "n < 2 ^ 53"
  shows "round64 (of_nat n) = Fin (of_nat n)"
proof (rule round64_exact [where m = "int n" and e = 0])
  show "(of_nat n :: rat) = of_int (int n) * pow2 0" by (simp add: pow2_def)
  from assms show "\<bar>int n\<bar> < 2 ^ 53" by simp
  from assms have "(of_nat n :: rat) < of_nat (2 ^ 53)" by (simp only: of_nat_less_iff)
  also have "\<dots> < pow2 1024" by (simp add: pow2_def)
  finally show "\<bar>of_nat n :: rat\<bar> < pow2 1024" by simp
qed simp

lemma round64_half_of_nat:
  assumes "n < 2 ^ 53"
  shows "round64 (1 / 2 * of_nat n) = Fin (of_nat n / 2)"
proof -
  have "round64 (of_nat n / 2) = Fin (of_nat n / 2)"
  proof (rule round64_exact [where m = "int n" and e = "- 1"])
    show "(of_nat n / 2 :: rat) = of_int (int n) * pow2 (- 1)" by (simp add: pow2_def)
    from assms show "\<bar>int n\<bar> < 2 ^ 53" by simp
    from assms have "(of_nat n :: rat) < of_nat (2 ^ 53)" by (simp only: of_nat_less_iff)
    also have "\<dots> < pow2 1024" by (simp add: pow2_def)
    finally show "\<bar>of_nat n / 2 :: rat\<bar> < pow2 1024" by simp
  qed simp
  then show ?thesis by simp
qed

lemma whole_quantities_foldl:
  assumes "map (\<lambda>item. read item ''quantity'') items = map (\<lambda>k. Num (Fin (of_nat k))) ks"
    and "acc + sum_list ks < 2 ^ 53"
  shows "foldl (\<lambda>s item. num_add s (number_of (read item ''quantity''))) (Fin (of_nat acc)) items
         = Fin (of_nat (acc + sum_list ks))"
  using assms
proof (induction items arbitrary: ks acc)
  case Nil
  then show ?case by simp
next
  case (Cons x xs)
  from Cons.prems(1) obtain k ks' where ks: "ks = k # ks'"
    and x: "read x ''quantity'' = Num (Fin (of_nat k))"
    and rest: "map (\<lambda>item. read item ''quantity'') xs = map (\<lambda>k. Num (Fin (of_nat k))) ks'"
    by (cases ks) auto
  from Cons.prems(2) ks have bound: "acc + k < 2 ^ 53" and bound': "(acc + k) + sum_list ks' < 2 ^ 53"
    by simp_all
  have "num_add (Fin (of_nat acc)) (Fin (of_nat k)) = round64 (of_nat (acc + k))"
    by simp
  also have "\<dots> = Fin (of_nat (acc + k))"
    by (rule round64_of_nat [OF bound])
  finally have step: "num_add (Fin (of_nat acc)) (number_of (read x ''quantity''))
                      = Fin (of_nat (acc + k))"
    by (simp only: x number_of.simps)
  from Cons.IH [OF rest bound'] step ks show ?case
    by (simp add: add.assoc)
qed

lemma whole_quantities_sum:
  assumes "map (\<lambda>item. read item ''quantity'') items = map (\<lambda>k. Num (Fin (of_nat k))) ks"
    and "sum_list ks < 2 ^ 53"
  shows "quantity_sum items = Fin (of_nat (sum_list ks))"
  using whole_quantities_foldl [OF assms(1), of 0] assms(2)
  by (simp add: quantity_sum_def)

lemma whole_quantities_weight:
  assumes "map (\<lambda>item. read item ''quantity'') items = map (\<lambda>k. Num (Fin (of_nat k))) ks"
    and "sum_list ks < 2 ^ 53"
  shows "num_mul (Fin (1 / 2)) (quantity_sum items) = Fin (of_nat (sum_list ks) / 2)"
  using round64_half_of_nat [OF assms(2)]
  by (simp only: whole_quantities_sum [OF assms] num_mul.simps)

subsection \<open>The cart check on carts of line items\<close>

lemma create_order_logged_reply:
  "result (try_block w body) = Inr r \<Longrightarrow> logged (create_order w body) = logs (try_block w body)"
  by (simp add: create_order_def Let_def)

text \<open>
  When the entries before the first offending one are valid line items and the
  offending entry is truthy (an object, in particular), the handler answers "Invalid
  cart item data", sends nothing, and logs that entry.
\<close>

lemma line_item_cart_check:
  assumes "spec_presence body" and "spec_form body"
    and "elements (read body ''cart'') = pre @ bad # post"
    and "list_all spec_item pre" and "\<not> spec_item bad" and "truthy bad"
  shows "answer (create_order w body) = rejected ''Invalid cart item data''"
    and "sent (create_order w body) = []"
    and "logged (create_order w body)
           = [Log Error ''Invalid cart item detected'' (Obj [(''invalidItem'', bad)])]"
proof -
  from assms(6) have "\<not> nullish bad" by (rule truthy_not_nullish)
  with assms(3-5) have found: "array_find (invalid_item w) (elements (read body ''cart'')) = Inr bad"
    by (simp add: array_find_first)
  note cart = try_block_cart [OF assms(1,2) found assms(6)]
  show "answer (create_order w body) = rejected ''Invalid cart item data''"
    by (rule create_order_result [OF cart(1)])
  show "sent (create_order w body) = []"
    by (simp only: create_order_sent cart(2))
  show "logged (create_order w body)
          = [Log Error ''Invalid cart item detected'' (Obj [(''invalidItem'', bad)])]"
    by (simp only: create_order_logged_reply [OF cart(1)] cart(3))
qed

text \<open>An item whose \<open>id\<close> is a string gets the sku \<open>"SKU-" + id\<close>.\<close>

lemma sku_of_string_id:
  "read item ''id'' = Str s \<Longrightarrow> read (spec_order_item w item) ''sku'' = Str (''SKU-'' @ s)"
  by (simp add: spec_order_item_def string_of_Str)

subsection \<open>The examples\<close>

lemma round64_1: "round64 1 = Fin 1"
  by (simp add: round64_def ilog2_def pow2_def round_half_even_def compute_bitlen Let_def)

lemma round64_2: "round64 2 = Fin 2"
  by (simp add: round64_def ilog2_def pow2_def round_half_even_def quotient_of_int compute_bitlen Let_def)

lemma example_valid: "valid_submission example_submission"
  by (simp add: valid_submission_def example_submission_def submission_presence submission_form
      spec_cart_def spec_total_def submission_reads spec_item_def item_B1_def)

lemma example_mappable: "mappable w example_submission"
  by (simp add: mappable_def example_submission_def submission_reads item_B1_def
      has_string_primitive)

lemma quantity_sum_example: "quantity_sum [item_B1] = Fin 2"
  by (simp add: quantity_sum_def item_B1_def round64_2)

lemma charges_valid: "valid_submission (submission_with_charges sc cd)"
  by (simp add: valid_submission_def submission_with_charges_def spec_presence_def
      spec_form_def spec_cart_def spec_total_def spec_item_def item_B1_def form_A_def)

lemma charges_mappable: "mappable w (submission_with_charges sc cd)"
  by (simp add: mappable_def submission_with_charges_def item_B1_def has_string_primitive)

lemma form_field_falsy:
  assumes "k \<in> set [''name'', ''email'', ''phone'', ''address'', ''pincode'', ''state'']"
    and "\<not> truthy (read (read body ''formData'') k)"
  shows "\<not> spec_form body"
  using assms by (auto simp: spec_form_def)

lemma item_field_falsy:
  assumes "\<not> truthy (read item ''id'') \<or> \<not> truthy (read item ''name'')"
  shows "\<not> spec_item item"
  using assms by (auto simp: spec_item_def)

text \<open>
  A valid submission whose item ids have strings is mapped and sent: the payload, the
  one request, and what the \<^verbatim>\<open>try\<close> block ends with.
\<close>

lemma valid_payload:
  assumes "valid_submission body" and "mappable w body"
  shows "\<exists>p. provider_payload w body = Inr p
     \<and> sent (create_order w body) = [create_request w p]
     \<and> result (try_block w body) = relay w p
     \<and> read p ''order_id'' = read body ''orderId''
     \<and> read p ''order_date'' = Str (orderDate w)
     \<and> read p ''pickup_location'' = Str (env_or (env_SHIPROCKET_PICKUP_LOCATION w) ''Primary'')
     \<and> read p ''billing_customer_name'' = read (read body ''formData'') ''name''
     \<and> read p ''billing_address'' = read (read body ''formData'') ''address''
     \<and> read p ''billing_city'' = js_or (read (read body ''formData'') ''city'') (Str [])
     \<and> read p ''billing_pincode'' = read (read body ''formData'') ''pincode''
     \<and> read p ''billing_state'' = read (read body ''formData'') ''state''
     \<and> read p ''billing_email'' = read (read body ''formData'') ''email''
     \<and> read p ''billing_phone'' = read (read body ''formData'') ''phone''
     \<and> read p ''shipping_customer_name'' = read (read body ''formData'') ''name''
     \<and> read p ''shipping_address'' = read (read body ''formData'') ''address''
     \<and> read p ''shipping_city'' = js_or (read (read body ''formData'') ''city'') (Str [])
     \<and> read p ''shipping_pincode'' = read (read body ''formData'') ''pincode''
     \<and> read p ''shipping_state'' = read (read body ''formData'') ''state''
     \<and> read p ''shipping_email'' = read (read body ''formData'') ''email''
     \<and> read p ''shipping_phone'' = read (read body ''formData'') ''phone''
     \<and> read p ''order_items'' = Arr (map (spec_order_item w) (elements (read body ''cart'')))
     \<and> read p ''payment_method'' = Str ''Prepaid''
     \<and> read p ''shipping_charges'' = js_or (read body ''shippingCost'') (Num (Fin 0))
     \<and> read p ''total_discount'' = js_or (read body ''couponDiscount'') (Num (Fin 0))
     \<and> read p ''sub_total'' = read body ''totalAmount''
     \<and> read p ''length'' = Num (Fin 30)
     \<and> read p ''breadth'' = Num (Fin 20)
     \<and> read p ''height'' = Num (Fin 5)
     \<and> read p ''weight''
         = Num (num_mul (Fin (1 / 2)) (quantity_sum (elements (read body ''cart''))))"
proof -
  from assms(1) have items: "list_all spec_item (elements (read body ''cart''))"
    by (simp add: valid_submission_def spec_cart_def)
  from assms(2) have ids: "list_all (\<lambda>x. has_string w (read x ''id'')) (elements (read body ''cart''))"
    by (simp add: mappable_def)
  note m = array_map_items [OF list_all_spec_item_not_nullish [OF items] ids]
  note r = array_reduce_valid [OF items, of w "Fin 0"]
  from valid_mapped [OF assms]
  obtain p where p: "provider_payload w body = Inr p"
    and s: "sent (create_order w body) = [create_request w p]"
    and t: "result (try_block w body) = relay w p"
    by (elim exE conjE) (rule that, assumption+)
  from provider_payload_fields [OF m r js_times_numbers]
  obtain q where "provider_payload w body = Inr q
     \<and> read q ''order_id'' = read body ''orderId''
     \<and> read q ''order_date'' = Str (orderDate w)
     \<and> read q ''pickup_location'' = Str (env_or (env_SHIPROCKET_PICKUP_LOCATION w) ''Primary'')
     \<and> read q ''billing_customer_name'' = read (read body ''formData'') ''name''
     \<and> read q ''billing_address'' = read (read body ''formData'') ''address''
     \<and> read q ''billing_city'' = js_or (read (read body ''formData'') ''city'') (Str [])
     \<and> read q ''billing_pincode'' = read (read body ''formData'') ''pincode''
     \<and> read q ''billing_state'' = read (read body ''formData'') ''state''
     \<and> read q ''billing_email'' = read (read body ''formData'') ''email''
     \<and> read q ''billing_phone'' = read (read body ''formData'') ''phone''
     \<and> read q ''shipping_customer_name'' = read (read body ''formData'') ''name''
     \<and> read q ''shipping_address'' = read (read body ''formData'') ''address''
     \<and> read q ''shipping_city'' = js_or (read (read body ''formData'') ''city'') (Str [])
     \<and> read q ''shipping_pincode'' = read (read body ''formData'') ''pincode''
     \<and> read q ''shipping_state'' = read (read body ''formData'') ''state''
     \<and> read q ''shipping_email'' = read (read body ''formData'') ''email''
     \<and> read q ''shipping_phone'' = read (read body ''formData'') ''phone''
     \<and> read q ''order_items'' = Arr (map (spec_order_item w) (elements (read body ''cart'')))
     \<and> read q ''payment_method'' = Str ''Prepaid''
     \<and> read q ''shipping_charges'' = js_or (read body ''shippingCost'') (Num (Fin 0))
     \<and> read q ''total_discount'' = js_or (read body ''couponDiscount'') (Num (Fin 0))
     \<and> read q ''sub_total'' = read body ''totalAmount''
     \<and> read q ''length'' = Num (Fin 30)
     \<and> read q ''breadth'' = Num (Fin 20)
     \<and> read q ''height'' = Num (Fin 5)
     \<and> read q ''weight''
         = Num (num_mul (Fin (1 / 2))
             (foldl (\<lambda>s item. num_add s (number_of (read item ''quantity''))) (Fin 0)
                (elements (read body ''cart''))))"
    by (elim exE)
  with p have "p = q
     \<and> read q ''order_id'' = read body ''orderId''
     \<and> read q ''order_date'' = Str (orderDate w)
     \<and> read q ''pickup_location'' = Str (env_or (env_SHIPROCKET_PICKUP_LOCATION w) ''Primary'')
     \<and> read q ''billing_customer_name'' = read (read body ''formData'') ''name''
     \<and> read q ''billing_address'' = read (read body ''formData'') ''address''
     \<and> read q ''billing_city'' = js_or (read (read body ''formData'') ''city'') (Str [])
     \<and> read q ''billing_pincode'' = read (read body ''formData'') ''pincode''
     \<and> read q ''billing_state'' = read (read body ''formData'') ''state''
     \<and> read q ''billing_email'' = read (read body ''formData'') ''email''
     \<and> read q ''billing_phone'' = read (read body ''formData'') ''phone''
     \<and> read q ''shipping_customer_name'' = read (read body ''formData'') ''name''
     \<and> read q ''shipping_address'' = read (read body ''formData'') ''address''
     \<and> read q ''shipping_city'' = js_or (read (read body ''formData'') ''city'') (Str [])
     \<and> read q ''shipping_pincode'' = read (read body ''formData'') ''pincode''
     \<and> read q ''shipping_state'' = read (read body ''formData'') ''state''
     \<and> read q ''shipping_email'' = read (read body ''formData'') ''email''
     \<and> read q ''shipping_phone'' = read (read body ''formData'') ''phone''
     \<and> read q ''order_items'' = Arr (map (spec_order_item w) (elements (read body ''cart'')))
     \<and> read q ''payment_method'' = Str ''Prepaid''
     \<and> read q ''shipping_charges'' = js_or (read body ''shippingCost'') (Num (Fin 0))
     \<and> read q ''total_discount'' = js_or (read body ''couponDiscount'') (Num (Fin 0))
     \<and> read q ''sub_total'' = read body ''totalAmount''
     \<and> read q ''length'' = Num (Fin 30)
     \<and> read q ''breadth'' = Num (Fin 20)
     \<and> read q ''height'' = Num (Fin 5)
     \<and> read q ''weight''
         = Num (num_mul (Fin (1 / 2)) (quantity_sum (elements (read body ''cart''))))"
    by (simp only: quantity_sum_def) simp
  with p s t show ?thesis
    by (intro exI [of _ p]) simp
qed

lemma submission_mappable: "mappable w (submission (Arr [item_B1]) t)"
  by (simp add: mappable_def submission_reads item_B1_def has_string_primitive)

lemma submission_cart_valid: "spec_cart (submission (Arr [item_B1]) t)"
  by (simp add: spec_cart_def submission_reads spec_item_def item_B1_def)

lemma at_most_one_request: "length (sent (create_order w body)) \<le> 1"
  using try_block_calls_cases [of w body] by (auto simp: create_order_sent)

lemma zero_entry_found: "array_find (invalid_item w) [Num (Fin 0)] = Inr (Num (Fin 0))"
  by (simp add: invalid_item_spec spec_item_def bind_thrown_def)

lemma zero_entry_payload:
  "\<exists>p. provider_payload w (submission (Arr [Num (Fin 0)]) t) = Inr p
     \<and> read p ''order_items'' = Arr [Obj [(''name'', Undefined), (''sku'', Str ''SKU-undefined''),
           (''units'', Undefined), (''selling_price'', Undefined), (''discount'', Num (Fin 0)),
           (''tax'', Num (Fin 0)), (''hsn'', Str ''4901'')]]
     \<and> read p ''weight'' = Num NaN"
proof -
  let ?b = "submission (Arr [Num (Fin 0)]) t"
  have m: "array_map (order_item w) (elements (read ?b ''cart''))
      = Inr [Obj [(''name'', Undefined), (''sku'', Str ''SKU-undefined''),
           (''units'', Undefined), (''selling_price'', Undefined), (''discount'', Num (Fin 0)),
           (''tax'', Num (Fin 0)), (''hsn'', Str ''4901'')]]"
    by (simp add: submission_reads order_item_def get_prop_def bind_thrown_def)
  have r: "array_reduce (add_quantity w) (Num (Fin 0)) (elements (read ?b ''cart'')) = Inr (Num NaN)"
    by (simp add: submission_reads add_quantity_def get_prop_def js_plus_def bind_thrown_def)
  have t: "js_times w (Num (Fin (1 / 2))) (Num NaN) = Inr (Num NaN)"
    by (simp add: js_times_numbers)
  from provider_payload_fields [OF m r t]
  obtain p where "provider_payload w ?b = Inr p"
    and "read p ''order_items'' = Arr [Obj [(''name'', Undefined), (''sku'', Str ''SKU-undefined''),
           (''units'', Undefined), (''selling_price'', Undefined), (''discount'', Num (Fin 0)),
           (''tax'', Num (Fin 0)), (''hsn'', Str ''4901'')]]"
    and "read p ''weight'' = Num NaN"
    by (elim exE conjE) (rule that, assumption+)
  then show ?thesis by (intro exI [of _ p] conjI)
qed

lemma city_valid: "valid_submission (submission_in_city c)"
  by (simp add: valid_submission_def spec_presence_def spec_form_def spec_cart_def
      spec_total_def spec_item_def submission_in_city_def item_B1_def)

lemma city_mappable: "mappable w (submission_in_city c)"
  by (simp add: mappable_def submission_in_city_def item_B1_def has_string_primitive)

subsection \<open>The order of the checks and the truthiness tests\<close>

text \<open>
  The order of the four checks, for the handler's own cart test and for a cart whose
  first offending entry is truthy: the reason returned is that of the first check that
  fails.
\<close>

lemma checks_in_order:
  assumes "\<not> nullish body"
  shows "(\<not> spec_presence body \<longrightarrow>
            answer (create_order w body) = rejected ''Missing required order data'')
       \<and> (spec_presence body \<and> \<not> spec_form body \<longrightarrow>
            answer (create_order w body) = rejected ''Incomplete shipping details'')
       \<and> (spec_presence body \<and> spec_form body \<and> cart_test_fails w body \<longrightarrow>
            answer (create_order w body) = rejected ''Invalid cart item data'')
       \<and> (spec_presence body \<and> spec_form body
            \<and> elements (read body ''cart'') = pre @ bad # post
            \<and> list_all spec_item pre \<and> \<not> spec_item bad \<and> truthy bad \<longrightarrow>
            answer (create_order w body) = rejected ''Invalid cart item data'')
       \<and> (spec_presence body \<and> spec_form body \<and> cart_test_passes w body \<and> \<not> spec_total body \<longrightarrow>
            answer (create_order w body)
              = rejected ''Total amount must be a valid non-negative number'')
       \<and> (spec_presence body \<and> spec_form body \<and> spec_cart body \<and> \<not> spec_total body \<longrightarrow>
            answer (create_order w body)
              = rejected ''Total amount must be a valid non-negative number'')"
proof -
  have total: "answer (create_order w body)
      = rejected ''Total amount must be a valid non-negative number''"
    if "spec_presence body" and "spec_form body" and "cart_test_passes w body"
      and "\<not> spec_total body"
  proof -
    from that(3) obtain v where "array_find (invalid_item w) (elements (read body ''cart'')) = Inr v"
      and "\<not> truthy v"
      by (auto simp: cart_test_passes_def split: sum.splits)
    with that show ?thesis
      by (simp add: create_order_result try_block_total)
  qed
  show ?thesis
  proof (intro conjI impI)
    assume "\<not> spec_presence body"
    with assms show "answer (create_order w body) = rejected ''Missing required order data''"
      by (simp add: create_order_result try_block_missing)
  next
    assume "spec_presence body \<and> \<not> spec_form body"
    then show "answer (create_order w body) = rejected ''Incomplete shipping details''"
      by (simp add: create_order_result try_block_incomplete)
  next
    assume a: "spec_presence body \<and> spec_form body \<and> cart_test_fails w body"
    then obtain v where "array_find (invalid_item w) (elements (read body ''cart'')) = Inr v"
      and "truthy v"
      by (auto simp: cart_test_fails_def split: sum.splits)
    with a show "answer (create_order w body) = rejected ''Invalid cart item data''"
      by (simp add: create_order_result try_block_cart)
  next
    assume "spec_presence body \<and> spec_form body
            \<and> elements (read body ''cart'') = pre @ bad # post
            \<and> list_all spec_item pre \<and> \<not> spec_item bad \<and> truthy bad"
    then show "answer (create_order w body) = rejected ''Invalid cart item data''"
      by (intro line_item_cart_check(1) [of body pre bad post]) simp_all
  next
    assume "spec_presence body \<and> spec_form body \<and> cart_test_passes w body \<and> \<not> spec_total body"
    then show "answer (create_order w body)
        = rejected ''Total amount must be a valid non-negative number''"
      by (intro total) simp_all
  next
    assume "spec_presence body \<and> spec_form body \<and> spec_cart body \<and> \<not> spec_total body"
    then show "answer (create_order w body)
        = rejected ''Total amount must be a valid non-negative number''"
      by (intro total cart_test_passes_spec) simp_all
  qed
qed

text \<open>
  What holds of the truthiness tests: a falsy \<open>orderId\<close> or \<open>paymentId\<close> and an empty
  form field are answered as if the field were absent, and so is a cart item whose
  \<open>id\<close> or \<open>name\<close> is 0 or the empty string when every cart entry before it is truthy.
\<close>

lemma falsy_fields_after_truthy_entries:
  assumes "\<not> nullish body"
  shows "(read body ''orderId'' = Str [] \<or> read body ''orderId'' = Num (Fin 0)
          \<or> read body ''paymentId'' = Str []
          \<longrightarrow> answer (create_order w body) = rejected ''Missing required order data'')
       \<and> (k \<in> set [''name'', ''email'', ''phone'', ''address'', ''pincode'', ''state'']
          \<and> read (read body ''formData'') k = Str []
          \<longrightarrow> answer (create_order w body)
                = rejected (if spec_presence body then ''Incomplete shipping details''
                            else ''Missing required order data''))
       \<and> (spec_presence body \<and> spec_form body
          \<and> elements (read body ''cart'') = pre @ item # post \<and> list_all truthy pre
          \<and> (read item ''id'' = Num (Fin 0) \<or> read item ''id'' = Str []
              \<or> read item ''name'' = Num (Fin 0) \<or> read item ''name'' = Str [])
          \<longrightarrow> answer (create_order w body) = rejected ''Invalid cart item data'')"
proof (intro conjI impI)
  assume "read body ''orderId'' = Str [] \<or> read body ''orderId'' = Num (Fin 0)
          \<or> read body ''paymentId'' = Str []"
  then have "\<not> spec_presence body"
    by (auto simp: spec_presence_def)
  with assms show "answer (create_order w body) = rejected ''Missing required order data''"
    by (simp add: create_order_result try_block_missing)
next
  assume a: "k \<in> set [''name'', ''email'', ''phone'', ''address'', ''pincode'', ''state'']
          \<and> read (read body ''formData'') k = Str []"
  then have nf: "\<not> spec_form body"
    by (intro form_field_falsy [of k]) simp_all
  show "answer (create_order w body)
          = rejected (if spec_presence body then ''Incomplete shipping details''
                      else ''Missing required order data'')"
  proof (cases "spec_presence body")
    case True
    with nf show ?thesis
      by (simp add: create_order_result try_block_incomplete)
  next
    case False
    with assms show ?thesis
      by (simp add: create_order_result try_block_missing)
  qed
next
  assume a: "spec_presence body \<and> spec_form body
          \<and> elements (read body ''cart'') = pre @ item # post \<and> list_all truthy pre
          \<and> (read item ''id'' = Num (Fin 0) \<or> read item ''id'' = Str []
              \<or> read item ''name'' = Num (Fin 0) \<or> read item ''name'' = Str [])"
  then have bad: "\<not> spec_item item"
    by (intro item_field_falsy) auto
  from a have "\<exists>fs. item = Obj fs"
    by (auto dest: read_defined_object)
  then have "truthy item" by auto
  with a bad have "cart_test_fails w body"
    by (intro cart_test_fails_spec [of body pre item post]) simp_all
  then obtain v where "array_find (invalid_item w) (elements (read body ''cart'')) = Inr v"
    and "truthy v"
    by (auto simp: cart_test_fails_def split: sum.splits)
  with a show "answer (create_order w body) = rejected ''Invalid cart item data''"
    by (simp add: create_order_result try_block_cart)
qed

subsection \<open>The claims\<close>

text \<open>
  \<^bold>\<open>C1.\<close> For every parsed request body in which \<open>orderId\<close> is missing, or \<open>cart\<close> is
  missing or is not a non-empty array, or \<open>formData\<close> is missing, or \<open>paymentId\<close> is
  missing, the handler answers 400 with the reason "Missing required order data" and
  sends nothing to the provider. (\<^verbatim>\<open>express.json()\<close> hands the handler an object or
  an array, never \<^verbatim>\<open>null\<close>.)
\<close>

theorem missing_required_order_data:
  assumes "\<not> nullish body"
    and "read body ''orderId'' = Undefined \<or> read body ''cart'' = Undefined
         \<or> \<not> nonempty_array (read body ''cart'')
         \<or> read body ''formData'' = Undefined \<or> read body ''paymentId'' = Undefined"
  shows "answer (create_order w body) = rejected ''Missing required order data''
         \<and> sent (create_order w body) = []"
proof -
  from assms(2) have "\<not> spec_presence body"
    by (auto simp: spec_presence_def)
  with assms(1) show ?thesis
    by (simp add: create_order_result try_block_missing create_order_sent)
qed

theorem missing_required_order_data_witness:
  "\<not> nullish (Obj [(''orderId'', Str ''O1''), (''cart'', Arr []), (''formData'', form_A),
                   (''totalAmount'', Num (Fin 200)), (''paymentId'', Str ''P1'')])
   \<and> \<not> nonempty_array (read (Obj [(''orderId'', Str ''O1''), (''cart'', Arr []),
          (''formData'', form_A), (''totalAmount'', Num (Fin 200)),
          (''paymentId'', Str ''P1'')]) ''cart'')
   \<and> answer (create_order (world_at ''2025-07-14T09:30:00.000Z'' provider_accepts)
        (Obj [(''orderId'', Str ''O1''), (''cart'', Arr []), (''formData'', form_A),
              (''totalAmount'', Num (Fin 200)), (''paymentId'', Str ''P1'')]))
       = rejected ''Missing required order data''
   \<and> sent (create_order (world_at ''2025-07-14T09:30:00.000Z'' provider_accepts)
        (Obj [(''orderId'', Str ''O1''), (''cart'', Arr []), (''formData'', form_A),
              (''totalAmount'', Num (Fin 200)), (''paymentId'', Str ''P1'')])) = []"
proof -
  let ?body = "Obj [(''orderId'', Str ''O1''), (''cart'', Arr []), (''formData'', form_A),
                    (''totalAmount'', Num (Fin 200)), (''paymentId'', Str ''P1'')]"
  have n: "\<not> nullish ?body" by simp
  have c: "\<not> nonempty_array (read ?body ''cart'')" by simp
  from missing_required_order_data [OF n, of "world_at ''2025-07-14T09:30:00.000Z'' provider_accepts"] c
  show ?thesis by simp
qed

text \<open>
  \<^bold>\<open>C2.\<close> The claim is that a cart item with a missing or empty \<open>id\<close> or \<open>name\<close>, a
  non-finite \<open>price\<close> or \<open>quantity\<close>, or a \<open>quantity\<close> \<le> 0 is answered 400 "Invalid
  cart item data". The handler misses two kinds of cart entries. \<^verbatim>\<open>cart.find\<close> returns
  the offending entry itself and line 93 tests it with \<^verbatim>\<open>if (invalidItem)\<close>: for the cart
  \<^verbatim>\<open>[0]\<close> the entry found is \<^verbatim>\<open>0\<close>, the test is false, and the order goes to the
  provider with an item without name, the sku \<^verbatim>\<open>SKU-undefined\<close> and the weight
  \<^verbatim>\<open>NaN\<close>. For the cart \<^verbatim>\<open>[null]\<close> the callback throws on \<^verbatim>\<open>item.id\<close>, and the
  \<^verbatim>\<open>catch\<close> block answers 500 "Failed to create order in Shiprocket". On a cart whose
  offending entry is an object the handler does what the claim says
  (\<open>line_item_cart_check\<close>).
\<close>

theorem zero_cart_entry_is_forwarded:
  "\<not> spec_item (Num (Fin 0))
   \<and> answer (create_order accepting_world (submission (Arr [Num (Fin 0)]) (Num (Fin 200))))
       = \<lparr>res_status = 200,
          res_json = Obj [(''success'', Bool True), (''shiprocketOrderId'', Num (Fin 9001)),
                          (''message'', Str ''Order created successfully in Shiprocket'')]\<rparr>
   \<and> length (sent (create_order accepting_world (submission (Arr [Num (Fin 0)]) (Num (Fin 200))))) = 1
   \<and> read (req_data (hd (sent (create_order accepting_world
         (submission (Arr [Num (Fin 0)]) (Num (Fin 200))))))) ''order_items''
       = Arr [Obj [(''name'', Undefined), (''sku'', Str ''SKU-undefined''),
                   (''units'', Undefined), (''selling_price'', Undefined),
                   (''discount'', Num (Fin 0)), (''tax'', Num (Fin 0)), (''hsn'', Str ''4901'')]]
   \<and> read (req_data (hd (sent (create_order accepting_world
         (submission (Arr [Num (Fin 0)]) (Num (Fin 200))))))) ''weight'' = Num NaN
   \<and> \<not> spec_item Null
   \<and> answer (create_order accepting_world (submission (Arr [Null]) (Num (Fin 200))))
       = \<lparr>res_status = 500,
          res_json = Obj [(''success'', Bool False),
                          (''error'', Str ''Failed to create order in Shiprocket''),
                          (''details'', Str ''Cannot read properties of null'')]\<rparr>"
proof -
  let ?w = accepting_world
  let ?b = "submission (Arr [Num (Fin 0)]) (Num (Fin 200))"
  let ?n = "submission (Arr [Null]) (Num (Fin 200))"
  obtain p where p: "provider_payload ?w ?b = Inr p"
    and items: "read p ''order_items'' = Arr [Obj [(''name'', Undefined), (''sku'', Str ''SKU-undefined''),
           (''units'', Undefined), (''selling_price'', Undefined), (''discount'', Num (Fin 0)),
           (''tax'', Num (Fin 0)), (''hsn'', Str ''4901'')]]"
    and weight: "read p ''weight'' = Num NaN"
    using zero_entry_payload [of ?w] by blast
  have fwd: "try_block ?w ?b =
     forward ?w (read ?b ''orderId'') (read ?b ''cart'') (read ?b ''formData'')
       (read ?b ''totalAmount'') (read ?b ''shippingCost'') (read ?b ''couponDiscount'')"
  proof (rule try_block_forward [where v = "Num (Fin 0)"])
    show "array_find (invalid_item ?w) (elements (read ?b ''cart'')) = Inr (Num (Fin 0))"
      by (simp only: submission_reads elements.simps zero_entry_found)
  qed (simp_all add: submission_presence submission_form submission_reads spec_total_def)
  have sent: "sent (create_order ?w ?b) = [create_request ?w p]"
    by (simp only: create_order_sent fwd forward_calls [OF p])
  have "result (try_block ?w ?b) = relay ?w p"
    by (simp only: fwd forward_result [OF p])
  also have "relay ?w p = Inr \<lparr>res_status = 200,
          res_json = Obj [(''success'', Bool True), (''shiprocketOrderId'', Num (Fin 9001)),
                          (''message'', Str ''Order created successfully in Shiprocket'')]\<rparr>"
    by (simp add: relay_def accepting_world_def world_at_def provider_accepts_def get_prop_def
        respond_def)
  finally have ans: "answer (create_order ?w ?b) = \<lparr>res_status = 200,
          res_json = Obj [(''success'', Bool True), (''shiprocketOrderId'', Num (Fin 9001)),
                          (''message'', Str ''Order created successfully in Shiprocket'')]\<rparr>"
    by (rule create_order_result)
  have "array_find (invalid_item ?w) (elements (read ?n ''cart''))
        = Inl (JsError (type_error_message ?w Null ''id'') None)"
    by (simp add: submission_reads invalid_item_nullish bind_thrown_def)
  then have "result (try_block ?w ?n) = Inl (JsError (type_error_message ?w Null ''id'') None)"
    by (intro try_block_throw) (simp_all add: submission_presence submission_form)
  then have null: "answer (create_order ?w ?n) = \<lparr>res_status = 500,
          res_json = Obj [(''success'', Bool False),
                          (''error'', Str ''Failed to create order in Shiprocket''),
                          (''details'', Str ''Cannot read properties of null'')]\<rparr>"
    by (simp add: create_order_answer catch_block_def accepting_world_def world_at_def)
  have "\<not> spec_item (Num (Fin 0))" and "\<not> spec_item Null"
    by (simp_all add: spec_item_def)
  with ans sent items weight null show ?thesis by (simp add: create_request_def)
qed

text \<open>
  \<^bold>\<open>C3.\<close> For every submission that passes the presence, shipping-form and cart
  checks: if \<open>totalAmount\<close> is not a finite number or is negative, the handler answers
  400 with the reason "Total amount must be a valid non-negative number" and sends
  nothing; if \<open>totalAmount\<close> is exactly 0, the request is not rejected: the answer is
  not a 400, the warning is logged and the handler goes on to the mapping, which sends
  at most one request; when the mapping does not throw (every item id has a string)
  exactly one request goes to the provider, and the answer is the 200 answer when the
  provider accepts the order.
\<close>

theorem total_amount_check:
  assumes "spec_presence body" and "spec_form body" and "spec_cart body"
  shows "(\<not> spec_total body \<longrightarrow>
            answer (create_order w body)
              = rejected ''Total amount must be a valid non-negative number''
            \<and> sent (create_order w body) = [])
       \<and> (read body ''totalAmount'' = Num (Fin 0) \<longrightarrow>
            res_status (answer (create_order w body)) \<noteq> 400
            \<and> Log Warn ''Total amount is zero, proceeding with warning''
                 (Obj [(''orderId'', read body ''orderId''), (''totalAmount'', Num (Fin 0))])
               \<in> set (logged (create_order w body))
            \<and> try_block w body
                = forward w (read body ''orderId'') (read body ''cart'') (read body ''formData'')
                    (read body ''totalAmount'') (read body ''shippingCost'')
                    (read body ''couponDiscount'')
            \<and> length (sent (create_order w body)) \<le> 1
            \<and> (mappable w body \<longrightarrow>
                 length (sent (create_order w body)) = 1
                 \<and> (\<forall>rsp. axios_post w (hd (sent (create_order w body))) = Inr rsp
                        \<and> \<not> nullish (resp_data rsp)
                      \<longrightarrow> res_status (answer (create_order w body)) = 200)))"
proof -
  have found: "array_find (invalid_item w) (elements (read body ''cart'')) = Inr Undefined"
    using assms(3) by (simp add: spec_cart_def array_find_valid)
  have bad: "\<not> spec_total body \<longrightarrow>
            answer (create_order w body)
              = rejected ''Total amount must be a valid non-negative number''
            \<and> sent (create_order w body) = []"
    using assms found
    by (simp add: create_order_result create_order_sent try_block_total)
  have zero: "read body ''totalAmount'' = Num (Fin 0) \<longrightarrow>
            res_status (answer (create_order w body)) \<noteq> 400
            \<and> Log Warn ''Total amount is zero, proceeding with warning''
                 (Obj [(''orderId'', read body ''orderId''), (''totalAmount'', Num (Fin 0))])
               \<in> set (logged (create_order w body))
            \<and> try_block w body
                = forward w (read body ''orderId'') (read body ''cart'') (read body ''formData'')
                    (read body ''totalAmount'') (read body ''shippingCost'')
                    (read body ''couponDiscount'')
            \<and> length (sent (create_order w body)) \<le> 1
            \<and> (mappable w body \<longrightarrow>
                 length (sent (create_order w body)) = 1
                 \<and> (\<forall>rsp. axios_post w (hd (sent (create_order w body))) = Inr rsp
                        \<and> \<not> nullish (resp_data rsp)
                      \<longrightarrow> res_status (answer (create_order w body)) = 200))"
  proof (rule impI)
    assume z: "read body ''totalAmount'' = Num (Fin 0)"
    then have "spec_total body" by (simp add: spec_total_def)
    with assms have v: "valid_submission body" by (simp add: valid_submission_def)
    have a: "res_status (answer (create_order w body)) \<noteq> 400"
      by (rule valid_not_400 [OF v])
    have b: "Log Warn ''Total amount is zero, proceeding with warning''
          (Obj [(''orderId'', read body ''orderId''), (''totalAmount'', Num (Fin 0))])
        \<in> set (logged (create_order w body))"
      using forward_warns [of "read body ''orderId''" w "read body ''cart''" "read body ''formData''"
          "read body ''shippingCost''" "read body ''couponDiscount''"]
        create_order_logged [of w body] z
      by (auto simp: valid_forward [OF v])
    note c = valid_forward [OF v, of w]
    note d = at_most_one_request [of w body]
    have e: "mappable w body \<longrightarrow>
                 length (sent (create_order w body)) = 1
                 \<and> (\<forall>rsp. axios_post w (hd (sent (create_order w body))) = Inr rsp
                        \<and> \<not> nullish (resp_data rsp)
                      \<longrightarrow> res_status (answer (create_order w body)) = 200)"
    proof (rule impI)
      assume m: "mappable w body"
      from valid_mapped [OF v m]
      obtain p where sent: "sent (create_order w body) = [create_request w p]"
        and res: "result (try_block w body) = relay w p"
        by (elim exE conjE) (rule that, assumption+)
      have "length (sent (create_order w body)) = 1" by (simp add: sent)
      moreover have "\<forall>rsp. axios_post w (hd (sent (create_order w body))) = Inr rsp
            \<and> \<not> nullish (resp_data rsp)
          \<longrightarrow> res_status (answer (create_order w body)) = 200"
        by (auto simp: sent create_order_answer res relay_def get_prop_def respond_def)
      ultimately show "length (sent (create_order w body)) = 1
                 \<and> (\<forall>rsp. axios_post w (hd (sent (create_order w body))) = Inr rsp
                        \<and> \<not> nullish (resp_data rsp)
                      \<longrightarrow> res_status (answer (create_order w body)) = 200)"
        by (rule conjI)
    qed
    from a b c d e
    show "res_status (answer (create_order w body)) \<noteq> 400
            \<and> Log Warn ''Total amount is zero, proceeding with warning''
                 (Obj [(''orderId'', read body ''orderId''), (''totalAmount'', Num (Fin 0))])
               \<in> set (logged (create_order w body))
            \<and> try_block w body
                = forward w (read body ''orderId'') (read body ''cart'') (read body ''formData'')
                    (read body ''totalAmount'') (read body ''shippingCost'')
                    (read body ''couponDiscount'')
            \<and> length (sent (create_order w body)) \<le> 1
            \<and> (mappable w body \<longrightarrow>
                 length (sent (create_order w body)) = 1
                 \<and> (\<forall>rsp. axios_post w (hd (sent (create_order w body))) = Inr rsp
                        \<and> \<not> nullish (resp_data rsp)
                      \<longrightarrow> res_status (answer (create_order w body)) = 200))"
      by (intro conjI)
  qed
  from bad zero show ?thesis by (rule conjI)
qed

theorem total_amount_check_witness:
  "spec_presence (submission (Arr [item_B1]) (Num (Fin (- 1))))
   \<and> spec_form (submission (Arr [item_B1]) (Num (Fin (- 1))))
   \<and> spec_cart (submission (Arr [item_B1]) (Num (Fin (- 1))))
   \<and> \<not> spec_total (submission (Arr [item_B1]) (Num (Fin (- 1))))
   \<and> answer (create_order accepting_world (submission (Arr [item_B1]) (Num (Fin (- 1)))))
       = rejected ''Total amount must be a valid non-negative number''
   \<and> sent (create_order accepting_world (submission (Arr [item_B1]) (Num (Fin (- 1))))) = []
   \<and> spec_presence (submission (Arr [item_B1]) (Num (Fin 0)))
   \<and> spec_form (submission (Arr [item_B1]) (Num (Fin 0)))
   \<and> spec_cart (submission (Arr [item_B1]) (Num (Fin 0)))
   \<and> read (submission (Arr [item_B1]) (Num (Fin 0))) ''totalAmount'' = Num (Fin 0)
   \<and> mappable accepting_world (submission (Arr [item_B1]) (Num (Fin 0)))
   \<and> length (sent (create_order accepting_world (submission (Arr [item_B1]) (Num (Fin 0))))) = 1
   \<and> res_status (answer (create_order accepting_world
         (submission (Arr [item_B1]) (Num (Fin 0))))) = 200
   \<and> Log Warn ''Total amount is zero, proceeding with warning''
         (Obj [(''orderId'', Str ''O1''), (''totalAmount'', Num (Fin 0))])
       \<in> set (logged (create_order accepting_world (submission (Arr [item_B1]) (Num (Fin 0)))))"
proof -
  let ?neg = "submission (Arr [item_B1]) (Num (Fin (- 1)))"
  let ?zero = "submission (Arr [item_B1]) (Num (Fin 0))"
  have p: "spec_presence (submission (Arr [item_B1]) t)" for t
    by (rule submission_presence)
  have f: "spec_form (submission (Arr [item_B1]) t)" for t
    by (rule submission_form)
  have c: "spec_cart (submission (Arr [item_B1]) t)" for t
    by (rule submission_cart_valid)
  have n: "\<not> spec_total ?neg"
    by (simp add: spec_total_def submission_reads)
  have z: "read ?zero ''totalAmount'' = Num (Fin 0)"
    by (simp add: submission_reads)
  note m = submission_mappable [of accepting_world "Num (Fin 0)"]
  have ok: "axios_post accepting_world rq
              = Inr \<lparr>resp_status = 200, resp_data = Obj [(''order_id'', Num (Fin 9001))]\<rparr>" for rq
    by (simp add: accepting_world_def world_at_def provider_accepts_def)
  note t = total_amount_check [OF p f c, of _ accepting_world]
  from t [of "Num (Fin (- 1))", THEN conjunct1, THEN mp, OF n]
  have neg: "answer (create_order accepting_world ?neg)
               = rejected ''Total amount must be a valid non-negative number''
             \<and> sent (create_order accepting_world ?neg) = []" .
  note zr = t [of "Num (Fin 0)", THEN conjunct2, THEN mp, OF z]
  from zr have warn: "Log Warn ''Total amount is zero, proceeding with warning''
            (Obj [(''orderId'', read ?zero ''orderId''), (''totalAmount'', Num (Fin 0))])
          \<in> set (logged (create_order accepting_world ?zero))"
    by (elim conjE)
  from zr have "mappable accepting_world ?zero \<longrightarrow>
       length (sent (create_order accepting_world ?zero)) = 1
       \<and> (\<forall>rsp. axios_post accepting_world (hd (sent (create_order accepting_world ?zero))) = Inr rsp
                \<and> \<not> nullish (resp_data rsp)
             \<longrightarrow> res_status (answer (create_order accepting_world ?zero)) = 200)"
    by (elim conjE)
  note both = this [THEN mp, OF m]
  note one = both [THEN conjunct1]
  note acc = both [THEN conjunct2]
  from acc have "res_status (answer (create_order accepting_world ?zero)) = 200"
    using ok [of "hd (sent (create_order accepting_world ?zero))"] by auto
  with neg warn one p f c n z m show ?thesis
    by (simp add: submission_reads)
qed

text \<open>
  \<^bold>\<open>C4.\<close> The claim is that the reason returned is that of the earliest failing
  check. The body with the cart \<^verbatim>\<open>[0]\<close> and the total amount \<^verbatim>\<open>-1\<close> passes the
  presence and the form checks and fails both the cart check and the total-amount
  check; the claim says "Invalid cart item data". The handler's cart test finds the
  entry \<^verbatim>\<open>0\<close>, line 93 tests it with \<^verbatim>\<open>if (invalidItem)\<close>, which is false, and the
  handler answers with the reason of check 4, "Total amount must be a valid
  non-negative number", whatever the surroundings.
\<close>

theorem falsy_entry_answered_with_total_reason:
  "spec_presence (submission (Arr [Num (Fin 0)]) (Num (Fin (- 1))))
   \<and> spec_form (submission (Arr [Num (Fin 0)]) (Num (Fin (- 1))))
   \<and> \<not> spec_cart (submission (Arr [Num (Fin 0)]) (Num (Fin (- 1))))
   \<and> \<not> spec_total (submission (Arr [Num (Fin 0)]) (Num (Fin (- 1))))
   \<and> answer (create_order w (submission (Arr [Num (Fin 0)]) (Num (Fin (- 1)))))
       = rejected ''Total amount must be a valid non-negative number''
   \<and> answer (create_order w (submission (Arr [Num (Fin 0)]) (Num (Fin (- 1)))))
       \<noteq> rejected ''Invalid cart item data''"
proof -
  let ?b = "submission (Arr [Num (Fin 0)]) (Num (Fin (- 1)))"
  have p: "spec_presence ?b" by (rule submission_presence)
  have f: "spec_form ?b" by (rule submission_form)
  have c: "\<not> spec_cart ?b"
    by (simp add: spec_cart_def submission_reads spec_item_def)
  have t: "\<not> spec_total ?b"
    by (simp add: spec_total_def submission_reads)
  have found: "array_find (invalid_item w) (elements (read ?b ''cart'')) = Inr (Num (Fin 0))"
    by (simp only: submission_reads elements.simps zero_entry_found)
  have falsy: "\<not> truthy (Num (Fin 0))" by simp
  have a: "answer (create_order w ?b)
      = rejected ''Total amount must be a valid non-negative number''"
    by (rule create_order_result [OF try_block_total(1) [OF p f found falsy t]])
  then have "answer (create_order w ?b) \<noteq> rejected ''Invalid cart item data''"
    by (simp add: rejected_def)
  with p f c t a show ?thesis by (intro conjI)
qed

text \<open>
  \<^bold>\<open>C5.\<close> For every valid submission whose item ids all have a string (the template
  literal of the mapping does not throw) the handler sends one request, and its
  payload satisfies: every cart item is mapped to
  \<^verbatim>\<open>{name, sku: "SKU-"+id, units: quantity, selling_price: price, discount: 0, tax: 0, hsn: "4901"}\<close>;
  the billing and the shipping fields are read from the same \<open>formData\<close> and are
  pairwise equal, both cities being \<open>formData.city\<close> or else the empty string;
  \<open>payment_method\<close> is "Prepaid"; length, breadth and height are 30,
  20 and 5; the weight is 0.5 times the sum of the quantities, in the arithmetic of
  the language (binary64, the quantities added from the left); and
  \<open>shipping_charges\<close> and \<open>total_discount\<close> are 0 when \<open>shippingCost\<close> and
  \<open>couponDiscount\<close> are absent.
\<close>

theorem mapped_payload:
  assumes "valid_submission body" and "mappable w body"
  shows "\<exists>p. sent (create_order w body) = [create_request w p]
    \<and> read p ''order_items'' = Arr (map (spec_order_item w) (elements (read body ''cart'')))
    \<and> read p ''billing_customer_name'' = read (read body ''formData'') ''name''
    \<and> read p ''shipping_customer_name'' = read (read body ''formData'') ''name''
    \<and> read p ''billing_address'' = read (read body ''formData'') ''address''
    \<and> read p ''shipping_address'' = read (read body ''formData'') ''address''
    \<and> read p ''billing_city'' = js_or (read (read body ''formData'') ''city'') (Str [])
    \<and> read p ''shipping_city'' = js_or (read (read body ''formData'') ''city'') (Str [])
    \<and> read p ''billing_city'' = read p ''shipping_city''
    \<and> read p ''billing_pincode'' = read (read body ''formData'') ''pincode''
    \<and> read p ''shipping_pincode'' = read (read body ''formData'') ''pincode''
    \<and> read p ''billing_state'' = read (read body ''formData'') ''state''
    \<and> read p ''shipping_state'' = read (read body ''formData'') ''state''
    \<and> read p ''billing_email'' = read (read body ''formData'') ''email''
    \<and> read p ''shipping_email'' = read (read body ''formData'') ''email''
    \<and> read p ''billing_phone'' = read (read body ''formData'') ''phone''
    \<and> read p ''shipping_phone'' = read (read body ''formData'') ''phone''
    \<and> read p ''payment_method'' = Str ''Prepaid''
    \<and> read p ''length'' = Num (Fin 30)
    \<and> read p ''breadth'' = Num (Fin 20)
    \<and> read p ''height'' = Num (Fin 5)
    \<and> read p ''weight''
        = Num (num_mul (Fin (1 / 2)) (quantity_sum (elements (read body ''cart''))))
    \<and> (\<forall>ks. map (\<lambda>item. read item ''quantity'') (elements (read body ''cart''))
               = map (\<lambda>k. Num (Fin (of_nat k))) ks
             \<and> sum_list ks < 2 ^ 53
           \<longrightarrow> read p ''weight'' = Num (Fin (of_nat (sum_list ks) / 2)))
    \<and> (read body ''shippingCost'' = Undefined \<longrightarrow> read p ''shipping_charges'' = Num (Fin 0))
    \<and> (read body ''couponDiscount'' = Undefined \<longrightarrow> read p ''total_discount'' = Num (Fin 0))"
proof -
  from valid_payload [OF assms]
  obtain p where sent: "sent (create_order w body) = [create_request w p]"
    and f1: "read p ''order_items'' = Arr (map (spec_order_item w) (elements (read body ''cart'')))"
    and f2: "read p ''billing_customer_name'' = read (read body ''formData'') ''name''"
    and f3: "read p ''shipping_customer_name'' = read (read body ''formData'') ''name''"
    and f4: "read p ''billing_address'' = read (read body ''formData'') ''address''"
    and f5: "read p ''shipping_address'' = read (read body ''formData'') ''address''"
    and f6: "read p ''billing_city'' = js_or (read (read body ''formData'') ''city'') (Str [])"
    and f7: "read p ''shipping_city'' = js_or (read (read body ''formData'') ''city'') (Str [])"
    and f8: "read p ''billing_pincode'' = read (read body ''formData'') ''pincode''"
    and f9: "read p ''shipping_pincode'' = read (read body ''formData'') ''pincode''"
    and f10: "read p ''billing_state'' = read (read body ''formData'') ''state''"
    and f11: "read p ''shipping_state'' = read (read body ''formData'') ''state''"
    and f12: "read p ''billing_email'' = read (read body ''formData'') ''email''"
    and f13: "read p ''shipping_email'' = read (read body ''formData'') ''email''"
    and f14: "read p ''billing_phone'' = read (read body ''formData'') ''phone''"
    and f15: "read p ''shipping_phone'' = read (read body ''formData'') ''phone''"
    and f16: "read p ''payment_method'' = Str ''Prepaid''"
    and f17: "read p ''length'' = Num (Fin 30)"
    and f18: "read p ''breadth'' = Num (Fin 20)"
    and f19: "read p ''height'' = Num (Fin 5)"
    and wt: "read p ''weight'' = Num (num_mul (Fin (1 / 2)) (quantity_sum (elements (read body ''cart''))))"
    and sc: "read p ''shipping_charges'' = js_or (read body ''shippingCost'') (Num (Fin 0))"
    and td: "read p ''total_discount'' = js_or (read body ''couponDiscount'') (Num (Fin 0))"
    by (elim exE conjE) (rule that, assumption+)
  have "read p ''weight'' = Num (Fin (of_nat (sum_list ks) / 2))"
    if "map (\<lambda>item. read item ''quantity'') (elements (read body ''cart''))
          = map (\<lambda>k. Num (Fin (of_nat k))) ks \<and> sum_list ks < 2 ^ 53" for ks
    using that by (simp only: wt whole_quantities_weight)
  then have exact: "\<forall>ks. map (\<lambda>item. read item ''quantity'') (elements (read body ''cart''))
               = map (\<lambda>k. Num (Fin (of_nat k))) ks
             \<and> sum_list ks < 2 ^ 53
           \<longrightarrow> read p ''weight'' = Num (Fin (of_nat (sum_list ks) / 2))"
    by (intro allI impI)
  have charges: "read body ''shippingCost'' = Undefined \<longrightarrow> read p ''shipping_charges'' = Num (Fin 0)"
    "read body ''couponDiscount'' = Undefined \<longrightarrow> read p ''total_discount'' = Num (Fin 0)"
    using sc td by (simp_all add: js_or_def)
  have city: "read p ''billing_city'' = read p ''shipping_city''"
    using f6 f7 by simp
  from sent f1 f2 f3 f4 f5 f6 f7 city f8 f9 f10 f11 f12 f13 f14 f15 f16 f17 f18 f19 wt exact charges
  show ?thesis
    by (intro exI [of _ p] conjI)
qed

theorem mapped_payload_witness:
  "valid_submission (submission_in_city ''Pune'')
   \<and> mappable accepting_world (submission_in_city ''Pune'')
   \<and> read (submission_in_city ''Pune'') ''shippingCost'' = Undefined
   \<and> read (submission_in_city ''Pune'') ''couponDiscount'' = Undefined
   \<and> map (\<lambda>item. read item ''quantity'') (elements (read (submission_in_city ''Pune'') ''cart''))
       = map (\<lambda>k. Num (Fin (of_nat k))) [2]
   \<and> sum_list [2 :: nat] < 2 ^ 53
   \<and> (\<exists>p. sent (create_order accepting_world (submission_in_city ''Pune''))
              = [create_request accepting_world p]
        \<and> read p ''order_items''
            = Arr [Obj [(''name'', Str ''Book''), (''sku'', Str ''SKU-B1''),
                        (''units'', Num (Fin 2)), (''selling_price'', Num (Fin 100)),
                        (''discount'', Num (Fin 0)), (''tax'', Num (Fin 0)),
                        (''hsn'', Str ''4901'')]]
        \<and> read p ''billing_customer_name'' = Str ''A''
        \<and> read p ''shipping_customer_name'' = Str ''A''
        \<and> read p ''billing_city'' = Str ''Pune''
        \<and> read p ''shipping_city'' = Str ''Pune''
        \<and> read p ''payment_method'' = Str ''Prepaid''
        \<and> read p ''weight'' = Num (Fin 1)
        \<and> read p ''shipping_charges'' = Num (Fin 0)
        \<and> read p ''total_discount'' = Num (Fin 0))"
proof -
  have sc: "read (submission_in_city ''Pune'') ''shippingCost'' = Undefined"
    and cd: "read (submission_in_city ''Pune'') ''couponDiscount'' = Undefined"
    and cart: "elements (read (submission_in_city ''Pune'') ''cart'') = [item_B1]"
    and city: "read (read (submission_in_city ''Pune'') ''formData'') ''city'' = Str ''Pune''"
    and name: "read (read (submission_in_city ''Pune'') ''formData'') ''name'' = Str ''A''"
    by (simp_all add: submission_in_city_def)
  from mapped_payload [OF city_valid [of "''Pune''"] city_mappable [of accepting_world "''Pune''"]]
  obtain p where sent: "sent (create_order accepting_world (submission_in_city ''Pune''))
              = [create_request accepting_world p]"
    and items: "read p ''order_items''
       = Arr (map (spec_order_item accepting_world) (elements (read (submission_in_city ''Pune'') ''cart'')))"
    and bname: "read p ''billing_customer_name'' = read (read (submission_in_city ''Pune'') ''formData'') ''name''"
    and sname: "read p ''shipping_customer_name'' = read (read (submission_in_city ''Pune'') ''formData'') ''name''"
    and bcity: "read p ''billing_city'' = js_or (read (read (submission_in_city ''Pune'') ''formData'') ''city'') (Str [])"
    and scity: "read p ''shipping_city'' = js_or (read (read (submission_in_city ''Pune'') ''formData'') ''city'') (Str [])"
    and pay: "read p ''payment_method'' = Str ''Prepaid''"
    and weight: "read p ''weight''
        = Num (num_mul (Fin (1 / 2)) (quantity_sum (elements (read (submission_in_city ''Pune'') ''cart''))))"
    and ship: "read (submission_in_city ''Pune'') ''shippingCost'' = Undefined
                 \<longrightarrow> read p ''shipping_charges'' = Num (Fin 0)"
    and disc: "read (submission_in_city ''Pune'') ''couponDiscount'' = Undefined
                 \<longrightarrow> read p ''total_discount'' = Num (Fin 0)"
    by (elim exE conjE) (rule that, assumption+)
  have "read p ''order_items''
            = Arr [Obj [(''name'', Str ''Book''), (''sku'', Str ''SKU-B1''),
                        (''units'', Num (Fin 2)), (''selling_price'', Num (Fin 100)),
                        (''discount'', Num (Fin 0)), (''tax'', Num (Fin 0)),
                        (''hsn'', Str ''4901'')]]"
    using items by (simp add: cart spec_order_item_def item_B1_def string_of_Str)
  moreover have "read p ''billing_customer_name'' = Str ''A''"
    and "read p ''shipping_customer_name'' = Str ''A''"
    using bname sname by (simp_all add: name)
  moreover have "read p ''billing_city'' = Str ''Pune''"
    and "read p ''shipping_city'' = Str ''Pune''"
    using bcity scity by (simp_all add: city js_or_def)
  moreover have "read p ''weight'' = Num (Fin 1)"
    using weight by (simp add: cart quantity_sum_example round64_1)
  moreover have "read p ''shipping_charges'' = Num (Fin 0)"
    and "read p ''total_discount'' = Num (Fin 0)"
    using ship disc sc cd by simp_all
  ultimately have "\<exists>p. sent (create_order accepting_world (submission_in_city ''Pune''))
              = [create_request accepting_world p]
        \<and> read p ''order_items''
            = Arr [Obj [(''name'', Str ''Book''), (''sku'', Str ''SKU-B1''),
                        (''units'', Num (Fin 2)), (''selling_price'', Num (Fin 100)),
                        (''discount'', Num (Fin 0)), (''tax'', Num (Fin 0)),
                        (''hsn'', Str ''4901'')]]
        \<and> read p ''billing_customer_name'' = Str ''A''
        \<and> read p ''shipping_customer_name'' = Str ''A''
        \<and> read p ''billing_city'' = Str ''Pune''
        \<and> read p ''shipping_city'' = Str ''Pune''
        \<and> read p ''payment_method'' = Str ''Prepaid''
        \<and> read p ''weight'' = Num (Fin 1)
        \<and> read p ''shipping_charges'' = Num (Fin 0)
        \<and> read p ''total_discount'' = Num (Fin 0)"
    using sent pay by (intro exI [of _ p] conjI)
  moreover have "map (\<lambda>item. read item ''quantity'') (elements (read (submission_in_city ''Pune'') ''cart''))
       = map (\<lambda>k. Num (Fin (of_nat k))) [2]"
    by (simp add: cart item_B1_def)
  moreover have "sum_list [2 :: nat] < 2 ^ 53" by simp
  ultimately show ?thesis using city_valid city_mappable [of accepting_world] sc cd by (intro conjI)
qed

text \<open>
  \<^bold>\<open>C6.\<close> The submission of the example in section 8 is mapped to a payload with
  \<open>sub_total\<close> 200, \<open>weight\<close> 1 and exactly one order item, whose \<open>sku\<close> is
  "SKU-B1", \<open>units\<close> 2 and \<open>selling_price\<close> 100, whatever the surroundings.
\<close>

theorem example_payload:
  "\<exists>p. provider_payload w example_submission = Inr p
     \<and> sent (create_order w example_submission) = [create_request w p]
     \<and> read p ''sub_total'' = Num (Fin 200)
     \<and> read p ''weight'' = Num (Fin 1)
     \<and> (\<exists>item. read p ''order_items'' = Arr [item]
           \<and> read item ''sku'' = Str ''SKU-B1''
           \<and> read item ''units'' = Num (Fin 2)
           \<and> read item ''selling_price'' = Num (Fin 100))"
proof -
  from valid_payload [OF example_valid example_mappable, of w]
  obtain p where p: "provider_payload w example_submission = Inr p"
    and sent: "sent (create_order w example_submission) = [create_request w p]"
    and total: "read p ''sub_total'' = read example_submission ''totalAmount''"
    and items: "read p ''order_items''
                  = Arr (map (spec_order_item w) (elements (read example_submission ''cart'')))"
    and weight: "read p ''weight''
        = Num (num_mul (Fin (1 / 2)) (quantity_sum (elements (read example_submission ''cart''))))"
    by (elim exE conjE) (rule that, assumption+)
  have cart: "elements (read example_submission ''cart'') = [item_B1]"
    by (simp add: example_submission_def submission_reads)
  have t: "read p ''sub_total'' = Num (Fin 200)"
    using total by (simp add: example_submission_def submission_reads)
  have wt: "read p ''weight'' = Num (Fin 1)"
    using weight by (simp add: cart quantity_sum_example round64_1)
  have "read p ''order_items'' = Arr [spec_order_item w item_B1]"
    using items by (simp add: cart)
  moreover have "read (spec_order_item w item_B1) ''sku'' = Str ''SKU-B1''"
    and "read (spec_order_item w item_B1) ''units'' = Num (Fin 2)"
    and "read (spec_order_item w item_B1) ''selling_price'' = Num (Fin 100)"
    by (simp_all add: spec_order_item_def item_B1_def string_of_Str)
  ultimately have it: "\<exists>item. read p ''order_items'' = Arr [item]
           \<and> read item ''sku'' = Str ''SKU-B1''
           \<and> read item ''units'' = Num (Fin 2)
           \<and> read item ''selling_price'' = Num (Fin 100)"
    by (intro exI [of _ "spec_order_item w item_B1"] conjI)
  show ?thesis
    by (rule exI [of _ p]) (simp only: p sent t wt it simp_thms)
qed

text \<open>
  \<^bold>\<open>C7.\<close> The handler makes at most one request to the provider, and exactly one
  for a valid submission whose mapping does not throw (every item id has a string).
  Whenever the one request made fails: a 401 gives the status 401 with the fixed
  authentication body; a 422 gives the status 422 with the provider's data under
  \<open>details\<close>; any other failure (another status, or no response at all) gives the
  status 500 with the error's message under \<open>details\<close>.
\<close>

theorem provider_failure_answers:
  "length (sent (create_order w body)) \<le> 1
   \<and> (valid_submission body \<and> mappable w body \<longrightarrow> (\<exists>rq. sent (create_order w body) = [rq]))
   \<and> (\<forall>rq err. sent (create_order w body) = [rq] \<and> axios_post w rq = Inl err \<longrightarrow>
        (\<forall>rsp. response err = Some rsp \<and> resp_status rsp = 401 \<longrightarrow>
           answer (create_order w body)
             = \<lparr>res_status = 401,
                res_json = Obj [(''success'', Bool False),
                                (''error'', Str ''Shiprocket authentication failed''),
                                (''details'', Str ''Invalid or expired Shiprocket token'')]\<rparr>)
      \<and> (\<forall>rsp. response err = Some rsp \<and> resp_status rsp = 422 \<longrightarrow>
           answer (create_order w body)
             = \<lparr>res_status = 422,
                res_json = Obj [(''success'', Bool False),
                                (''error'', Str ''Invalid order data for Shiprocket''),
                                (''details'', resp_data rsp)]\<rparr>)
      \<and> (response err = None
           \<or> (\<exists>rsp. response err = Some rsp \<and> resp_status rsp \<noteq> 401 \<and> resp_status rsp \<noteq> 422)
          \<longrightarrow>
           answer (create_order w body)
             = \<lparr>res_status = 500,
                res_json = Obj [(''success'', Bool False),
                                (''error'', Str ''Failed to create order in Shiprocket''),
                                (''details'', Str (message err))]\<rparr>))"
proof -
  have one: "valid_submission body \<and> mappable w body \<longrightarrow> (\<exists>rq. sent (create_order w body) = [rq])"
  proof (rule impI)
    assume "valid_submission body \<and> mappable w body"
    then have v: "valid_submission body" and m: "mappable w body" by simp_all
    from valid_mapped [OF v m]
    obtain p where "sent (create_order w body) = [create_request w p]"
      by (elim exE conjE) (rule that, assumption+)
    then show "\<exists>rq. sent (create_order w body) = [rq]" by (rule exI)
  qed
  have fail: "(\<forall>rsp. response err = Some rsp \<and> resp_status rsp = 401 \<longrightarrow>
           answer (create_order w body)
             = \<lparr>res_status = 401,
                res_json = Obj [(''success'', Bool False),
                                (''error'', Str ''Shiprocket authentication failed''),
                                (''details'', Str ''Invalid or expired Shiprocket token'')]\<rparr>)
      \<and> (\<forall>rsp. response err = Some rsp \<and> resp_status rsp = 422 \<longrightarrow>
           answer (create_order w body)
             = \<lparr>res_status = 422,
                res_json = Obj [(''success'', Bool False),
                                (''error'', Str ''Invalid order data for Shiprocket''),
                                (''details'', resp_data rsp)]\<rparr>)
      \<and> (response err = None
           \<or> (\<exists>rsp. response err = Some rsp \<and> resp_status rsp \<noteq> 401 \<and> resp_status rsp \<noteq> 422)
          \<longrightarrow>
           answer (create_order w body)
             = \<lparr>res_status = 500,
                res_json = Obj [(''success'', Bool False),
                                (''error'', Str ''Failed to create order in Shiprocket''),
                                (''details'', Str (message err))]\<rparr>)"
    if s: "sent (create_order w body) = [rq]" and e: "axios_post w rq = Inl err" for rq err
  proof -
    from try_block_calls_cases [of w body] s
    obtain p where c: "calls (try_block w body) = [create_request w p]"
      and res: "result (try_block w body) = relay w p"
      by (auto simp: create_order_sent)
    from c s have "rq = create_request w p" by (simp add: create_order_sent)
    with e have "answer (create_order w body) = snd (catch_block err)"
      by (simp add: create_order_answer res relay_def)
    then show ?thesis by (auto simp: catch_block_def)
  qed
  have all: "\<forall>rq err. sent (create_order w body) = [rq] \<and> axios_post w rq = Inl err \<longrightarrow>
        (\<forall>rsp. response err = Some rsp \<and> resp_status rsp = 401 \<longrightarrow>
           answer (create_order w body)
             = \<lparr>res_status = 401,
                res_json = Obj [(''success'', Bool False),
                                (''error'', Str ''Shiprocket authentication failed''),
                                (''details'', Str ''Invalid or expired Shiprocket token'')]\<rparr>)
      \<and> (\<forall>rsp. response err = Some rsp \<and> resp_status rsp = 422 \<longrightarrow>
           answer (create_order w body)
             = \<lparr>res_status = 422,
                res_json = Obj [(''success'', Bool False),
                                (''error'', Str ''Invalid order data for Shiprocket''),
                                (''details'', resp_data rsp)]\<rparr>)
      \<and> (response err = None
           \<or> (\<exists>rsp. response err = Some rsp \<and> resp_status rsp \<noteq> 401 \<and> resp_status rsp \<noteq> 422)
          \<longrightarrow>
           answer (create_order w body)
             = \<lparr>res_status = 500,
                res_json = Obj [(''success'', Bool False),
                                (''error'', Str ''Failed to create order in Shiprocket''),
                                (''details'', Str (message err))]\<rparr>)"
  proof (intro allI impI)
    fix rq err
    assume a: "sent (create_order w body) = [rq] \<and> axios_post w rq = Inl err"
    show "(\<forall>rsp. response err = Some rsp \<and> resp_status rsp = 401 \<longrightarrow>
           answer (create_order w body)
             = \<lparr>res_status = 401,
                res_json = Obj [(''success'', Bool False),
                                (''error'', Str ''Shiprocket authentication failed''),
                                (''details'', Str ''Invalid or expired Shiprocket token'')]\<rparr>)
      \<and> (\<forall>rsp. response err = Some rsp \<and> resp_status rsp = 422 \<longrightarrow>
           answer (create_order w body)
             = \<lparr>res_status = 422,
                res_json = Obj [(''success'', Bool False),
                                (''error'', Str ''Invalid order data for Shiprocket''),
                                (''details'', resp_data rsp)]\<rparr>)
      \<and> (response err = None
           \<or> (\<exists>rsp. response err = Some rsp \<and> resp_status rsp \<noteq> 401 \<and> resp_status rsp \<noteq> 422)
          \<longrightarrow>
           answer (create_order w body)
             = \<lparr>res_status = 500,
                res_json = Obj [(''success'', Bool False),
                                (''error'', Str ''Failed to create order in Shiprocket''),
                                (''details'', Str (message err))]\<rparr>)"
      by (rule fail [OF a [THEN conjunct1] a [THEN conjunct2]])
  qed
  from at_most_one_request [of w body] one all show ?thesis by (intro conjI)
qed

theorem provider_failure_answers_witness:
  "valid_submission example_submission
   \<and> mappable (world_at ''2025-07-14T09:30:00.000Z''
         (provider_answers 401 (Obj [(''message'', Str ''Unauthenticated.'')]))) example_submission
   \<and> length (sent (create_order
         (world_at ''2025-07-14T09:30:00.000Z''
            (provider_answers 401 (Obj [(''message'', Str ''Unauthenticated.'')])))
         example_submission)) = 1
   \<and> answer (create_order
         (world_at ''2025-07-14T09:30:00.000Z''
            (provider_answers 401 (Obj [(''message'', Str ''Unauthenticated.'')])))
         example_submission)
       = \<lparr>res_status = 401,
          res_json = Obj [(''success'', Bool False),
                          (''error'', Str ''Shiprocket authentication failed''),
                          (''details'', Str ''Invalid or expired Shiprocket token'')]\<rparr>
   \<and> answer (create_order
         (world_at ''2025-07-14T09:30:00.000Z''
            (provider_answers 422 (Obj [(''message'', Str ''Invalid pincode'')])))
         example_submission)
       = \<lparr>res_status = 422,
          res_json = Obj [(''success'', Bool False),
                          (''error'', Str ''Invalid order data for Shiprocket''),
                          (''details'', Obj [(''message'', Str ''Invalid pincode'')])]\<rparr>
   \<and> answer (create_order (world_at ''2025-07-14T09:30:00.000Z'' provider_unreachable)
         example_submission)
       = \<lparr>res_status = 500,
          res_json = Obj [(''success'', Bool False),
                          (''error'', Str ''Failed to create order in Shiprocket''),
                          (''details'', Str ''timeout of 10000ms exceeded'')]\<rparr>
   \<and> answer (create_order
         (world_at ''2025-07-14T09:30:00.000Z'' (provider_answers 503 Null))
         example_submission)
       = \<lparr>res_status = 500,
          res_json = Obj [(''success'', Bool False),
                          (''error'', Str ''Failed to create order in Shiprocket''),
                          (''details'', Str ''Request failed'')]\<rparr>"
proof -
  let ?now = "''2025-07-14T09:30:00.000Z''"
  let ?d1 = "Obj [(''message'', Str ''Unauthenticated.'')]"
  let ?d2 = "Obj [(''message'', Str ''Invalid pincode'')]"
  have post: "axios_post (world_at ?now f) rq = f rq" for f rq
    by (simp add: world_at_def)
  have sends: "\<exists>rq. sent (create_order (world_at ?now f) example_submission) = [rq]" for f
    using provider_failure_answers [of "world_at ?now f" example_submission, THEN conjunct2,
        THEN conjunct1] example_valid example_mappable [of "world_at ?now f"]
    by simp
  have one: "length (sent (create_order (world_at ?now (provider_answers 401 ?d1))
                example_submission)) = 1"
    using sends [of "provider_answers 401 ?d1"] by auto
  have a: "answer (create_order (world_at ?now (provider_answers 401 ?d1)) example_submission)
       = \<lparr>res_status = 401,
          res_json = Obj [(''success'', Bool False),
                          (''error'', Str ''Shiprocket authentication failed''),
                          (''details'', Str ''Invalid or expired Shiprocket token'')]\<rparr>"
  proof -
    from sends [of "provider_answers 401 ?d1"]
    obtain rq where s: "sent (create_order (world_at ?now (provider_answers 401 ?d1))
        example_submission) = [rq]" ..
    have e: "axios_post (world_at ?now (provider_answers 401 ?d1)) rq
        = Inl (JsError ''Request failed'' (Some \<lparr>resp_status = 401, resp_data = ?d1\<rparr>))"
      by (simp add: post provider_answers_def)
    from provider_failure_answers [of "world_at ?now (provider_answers 401 ?d1)" example_submission, THEN conjunct2,
        THEN conjunct2, rule_format, OF conjI, OF s e]
    show ?thesis by simp
  qed
  have b: "answer (create_order (world_at ?now (provider_answers 422 ?d2)) example_submission)
       = \<lparr>res_status = 422,
          res_json = Obj [(''success'', Bool False),
                          (''error'', Str ''Invalid order data for Shiprocket''),
                          (''details'', ?d2)]\<rparr>"
  proof -
    from sends [of "provider_answers 422 ?d2"]
    obtain rq where s: "sent (create_order (world_at ?now (provider_answers 422 ?d2))
        example_submission) = [rq]" ..
    have e: "axios_post (world_at ?now (provider_answers 422 ?d2)) rq
        = Inl (JsError ''Request failed'' (Some \<lparr>resp_status = 422, resp_data = ?d2\<rparr>))"
      by (simp add: post provider_answers_def)
    from provider_failure_answers [of "world_at ?now (provider_answers 422 ?d2)" example_submission, THEN conjunct2,
        THEN conjunct2, rule_format, OF conjI, OF s e]
    show ?thesis by simp
  qed
  have c: "answer (create_order (world_at ?now provider_unreachable) example_submission)
       = \<lparr>res_status = 500,
          res_json = Obj [(''success'', Bool False),
                          (''error'', Str ''Failed to create order in Shiprocket''),
                          (''details'', Str ''timeout of 10000ms exceeded'')]\<rparr>"
  proof -
    from sends [of provider_unreachable]
    obtain rq where s: "sent (create_order (world_at ?now provider_unreachable)
        example_submission) = [rq]" ..
    have e: "axios_post (world_at ?now provider_unreachable) rq
        = Inl (JsError ''timeout of 10000ms exceeded'' None)"
      by (simp add: post provider_unreachable_def)
    from provider_failure_answers [of "world_at ?now provider_unreachable" example_submission, THEN conjunct2,
        THEN conjunct2, rule_format, OF conjI, OF s e]
    show ?thesis by simp
  qed
  have d: "answer (create_order (world_at ?now (provider_answers 503 Null)) example_submission)
       = \<lparr>res_status = 500,
          res_json = Obj [(''success'', Bool False),
                          (''error'', Str ''Failed to create order in Shiprocket''),
                          (''details'', Str ''Request failed'')]\<rparr>"
  proof -
    from sends [of "provider_answers 503 Null"]
    obtain rq where s: "sent (create_order (world_at ?now (provider_answers 503 Null))
        example_submission) = [rq]" ..
    have e: "axios_post (world_at ?now (provider_answers 503 Null)) rq
        = Inl (JsError ''Request failed'' (Some \<lparr>resp_status = 503, resp_data = Null\<rparr>))"
      by (simp add: post provider_answers_def)
    from provider_failure_answers [of "world_at ?now (provider_answers 503 Null)" example_submission, THEN conjunct2,
        THEN conjunct2, rule_format, OF conjI, OF s e]
    show ?thesis by simp
  qed
  from example_valid example_mappable [of "world_at ?now (provider_answers 401 ?d1)"] one a b c d
  show ?thesis by (intro conjI)
qed

text \<open>
  \<^bold>\<open>C8, as amended.\<close> The payload is a function of the submission, the current date
  (the UTC calendar day that \<open>order_date\<close> carries, not the time of day) and the
  environment variable \<^verbatim>\<open>SHIPROCKET_PICKUP_LOCATION\<close>: two evaluations on the same
  submission with the same date and the same variable give equal payloads, and
  every field other than \<open>order_date\<close> and \<open>pickup_location\<close> (the weight and the
  order items among them) is the same whatever the date, the environment and the
  provider.
\<close>

theorem payload_depends_on_date_and_environment:
  assumes "same_engine w w'"
  shows "(orderDate w = orderDate w'
          \<and> env_SHIPROCKET_PICKUP_LOCATION w = env_SHIPROCKET_PICKUP_LOCATION w'
          \<longrightarrow> provider_payload w body = provider_payload w' body)
       \<and> (\<forall>p p' k. provider_payload w body = Inr p \<and> provider_payload w' body = Inr p'
             \<and> k \<noteq> ''order_date'' \<and> k \<noteq> ''pickup_location''
           \<longrightarrow> read p k = read p' k)"
proof (intro conjI impI allI)
  assume "orderDate w = orderDate w'
          \<and> env_SHIPROCKET_PICKUP_LOCATION w = env_SHIPROCKET_PICKUP_LOCATION w'"
  then show "provider_payload w body = provider_payload w' body"
    by (intro provider_payload_same [OF assms]) simp_all
next
  fix p p' k
  assume "provider_payload w body = Inr p \<and> provider_payload w' body = Inr p'
             \<and> k \<noteq> ''order_date'' \<and> k \<noteq> ''pickup_location''"
  then show "read p k = read p' k"
    by (intro provider_payload_other_fields [OF assms, of body p p' k]) simp_all
qed

theorem payload_depends_on_date_and_environment_witness:
  "same_engine (world_at ''2025-07-14T09:30:00.000Z'' provider_accepts)
     (world_at ''2025-07-14T23:59:59.999Z'' provider_unreachable)
   \<and> date_toISOString (world_at ''2025-07-14T09:30:00.000Z'' provider_accepts)
       \<noteq> date_toISOString (world_at ''2025-07-14T23:59:59.999Z'' provider_unreachable)
   \<and> orderDate (world_at ''2025-07-14T09:30:00.000Z'' provider_accepts)
       = orderDate (world_at ''2025-07-14T23:59:59.999Z'' provider_unreachable)
   \<and> provider_payload (world_at ''2025-07-14T09:30:00.000Z'' provider_accepts) example_submission
       = provider_payload (world_at ''2025-07-14T23:59:59.999Z'' provider_unreachable)
           example_submission
   \<and> same_engine (world_at ''2025-07-14T09:30:00.000Z'' provider_accepts)
       (world_at ''2025-07-15T00:00:00.000Z'' provider_accepts)
   \<and> (\<exists>p p'. provider_payload (world_at ''2025-07-14T09:30:00.000Z'' provider_accepts)
                 example_submission = Inr p
             \<and> provider_payload (world_at ''2025-07-15T00:00:00.000Z'' provider_accepts)
                 example_submission = Inr p'
             \<and> read p ''weight'' = read p' ''weight''
             \<and> read p ''order_items'' = read p' ''order_items'')"
proof -
  let ?w = "world_at ''2025-07-14T09:30:00.000Z'' provider_accepts"
  let ?u = "world_at ''2025-07-14T23:59:59.999Z'' provider_unreachable"
  let ?v = "world_at ''2025-07-15T00:00:00.000Z'' provider_accepts"
  have e1: "same_engine ?w ?u" and e2: "same_engine ?w ?v"
    by (simp_all add: same_engine_def world_at_def)
  have t: "date_toISOString ?w \<noteq> date_toISOString ?u"
    by (simp add: world_at_def)
  have day: "orderDate ?w = orderDate ?u"
    by (simp add: orderDate_def world_at_def)
  have d: "orderDate ?w = orderDate ?u
           \<and> env_SHIPROCKET_PICKUP_LOCATION ?w = env_SHIPROCKET_PICKUP_LOCATION ?u"
    by (simp add: orderDate_def world_at_def)
  from payload_depends_on_date_and_environment [OF e1, of example_submission]
  have "orderDate ?w = orderDate ?u
           \<and> env_SHIPROCKET_PICKUP_LOCATION ?w = env_SHIPROCKET_PICKUP_LOCATION ?u
        \<longrightarrow> provider_payload ?w example_submission = provider_payload ?u example_submission"
    by (rule conjunct1)
  from this d
  have same: "provider_payload ?w example_submission = provider_payload ?u example_submission"
    by (rule mp)
  from valid_mapped [OF example_valid example_mappable, of ?w]
  obtain p where p: "provider_payload ?w example_submission = Inr p"
    by (elim exE conjE) (rule that, assumption+)
  from valid_mapped [OF example_valid example_mappable, of ?v]
  obtain p' where p': "provider_payload ?v example_submission = Inr p'"
    by (elim exE conjE) (rule that, assumption+)
  have k: "''weight'' \<noteq> ''order_date''" "''weight'' \<noteq> ''pickup_location''"
    "''order_items'' \<noteq> ''order_date''" "''order_items'' \<noteq> ''pickup_location''"
    by simp_all
  from payload_depends_on_date_and_environment [OF e2, of example_submission]
  have other: "provider_payload ?w example_submission = Inr p
        \<and> provider_payload ?v example_submission = Inr p'
        \<and> k \<noteq> ''order_date'' \<and> k \<noteq> ''pickup_location''
      \<longrightarrow> read p k = read p' k" for k
    by (elim conjE allE)
  from other [of "''weight''"] p p' k
  have w: "read p ''weight'' = read p' ''weight''" by (elim impE) (intro conjI)
  from other [of "''order_items''"] p p' k
  have i: "read p ''order_items'' = read p' ''order_items''" by (elim impE) (intro conjI)
  from p p' w i
  have "\<exists>p p'. provider_payload ?w example_submission = Inr p
             \<and> provider_payload ?v example_submission = Inr p'
             \<and> read p ''weight'' = read p' ''weight''
             \<and> read p ''order_items'' = read p' ''order_items''"
    by (intro exI conjI)
  with e1 t day e2 same show ?thesis by (intro conjI)
qed

text \<open>
  \<^bold>\<open>C8, as stated,\<close> fails: the payload of one and the same submission differs
  between two days, through \<open>order_date\<close> (line 118 reads the clock).
\<close>

theorem payload_changes_with_the_date:
  "provider_payload (world_at ''2025-07-14T09:30:00.000Z'' provider_accepts) example_submission
   \<noteq> provider_payload (world_at ''2025-07-15T00:00:00.000Z'' provider_accepts) example_submission"
proof
  let ?w = "world_at ''2025-07-14T09:30:00.000Z'' provider_accepts"
  let ?v = "world_at ''2025-07-15T00:00:00.000Z'' provider_accepts"
  assume eq: "provider_payload ?w example_submission = provider_payload ?v example_submission"
  from valid_payload [OF example_valid example_mappable, of ?w]
  obtain p where p: "provider_payload ?w example_submission = Inr p"
    and d: "read p ''order_date'' = Str (orderDate ?w)"
    by (elim exE conjE) (rule that, assumption+)
  from valid_payload [OF example_valid example_mappable, of ?v]
  obtain p' where p': "provider_payload ?v example_submission = Inr p'"
    and d': "read p' ''order_date'' = Str (orderDate ?v)"
    by (elim exE conjE) (rule that, assumption+)
  from eq p p' have "p = p'" by simp
  with d d' have "orderDate ?w = orderDate ?v" by simp
  then show False by (simp add: orderDate_def world_at_def)
qed

text \<open>
  \<^bold>\<open>C9.\<close> The claim is that a cart item whose \<open>id\<close> or \<open>name\<close> is 0 or the empty
  string is rejected as invalid cart item data. In the cart
  \<^verbatim>\<open>[0, {id: 0, name: "Book", price: 100, quantity: 2}]\<close> the second entry is such an
  item. The handler's cart test stops at the first entry, \<^verbatim>\<open>0\<close>, which line 93 takes
  for "nothing found": the body passes validation, one request goes to the provider,
  and the answer is the 200 of the provider's acceptance.
\<close>

theorem item_with_id_zero_is_forwarded:
  "spec_presence (submission (Arr [Num (Fin 0), item_id_zero]) (Num (Fin 200)))
   \<and> spec_form (submission (Arr [Num (Fin 0), item_id_zero]) (Num (Fin 200)))
   \<and> elements (read (submission (Arr [Num (Fin 0), item_id_zero]) (Num (Fin 200))) ''cart'')
       = [Num (Fin 0), item_id_zero]
   \<and> read item_id_zero ''id'' = Num (Fin 0)
   \<and> answer (create_order accepting_world
         (submission (Arr [Num (Fin 0), item_id_zero]) (Num (Fin 200))))
       = \<lparr>res_status = 200,
          res_json = Obj [(''success'', Bool True), (''shiprocketOrderId'', Num (Fin 9001)),
                          (''message'', Str ''Order created successfully in Shiprocket'')]\<rparr>
   \<and> answer (create_order accepting_world
         (submission (Arr [Num (Fin 0), item_id_zero]) (Num (Fin 200))))
       \<noteq> rejected ''Invalid cart item data''
   \<and> length (sent (create_order accepting_world
         (submission (Arr [Num (Fin 0), item_id_zero]) (Num (Fin 200))))) = 1"
proof -
  let ?w = accepting_world
  let ?b = "submission (Arr [Num (Fin 0), item_id_zero]) (Num (Fin 200))"
  have p: "spec_presence ?b" by (rule submission_presence)
  have f: "spec_form ?b" by (rule submission_form)
  have t: "spec_total ?b" by (simp add: spec_total_def submission_reads)
  have cart: "elements (read ?b ''cart'') = [Num (Fin 0), item_id_zero]"
    by (simp add: submission_reads)
  have id: "read item_id_zero ''id'' = Num (Fin 0)"
    by (simp add: item_id_zero_def)
  have found: "array_find (invalid_item ?w) (elements (read ?b ''cart'')) = Inr (Num (Fin 0))"
    by (simp add: cart invalid_item_spec spec_item_def bind_thrown_def)
  have falsy: "\<not> truthy (Num (Fin 0))" by simp
  note fwd = try_block_forward [OF p f found falsy t]
  have "\<exists>ois. array_map (order_item ?w) (elements (read ?b ''cart'')) = Inr ois"
    by (simp only: cart) (simp add: order_item_def get_prop_def bind_thrown_def item_id_zero_def)
  then obtain ois where m: "array_map (order_item ?w) (elements (read ?b ''cart'')) = Inr ois" ..
  have r: "array_reduce (add_quantity ?w) (Num (Fin 0)) (elements (read ?b ''cart''))
      = Inr (Num NaN)"
    by (simp only: cart)
      (simp add: add_quantity_def get_prop_def js_plus_def bind_thrown_def item_id_zero_def)
  have h: "js_times ?w (Num (Fin (1 / 2))) (Num NaN) = Inr (Num NaN)"
    by (simp add: js_times_numbers)
  from provider_payload_fields [OF m r h]
  obtain q where q: "provider_payload ?w ?b = Inr q"
    by (elim exE conjE) (rule that, assumption+)
  have sent: "sent (create_order ?w ?b) = [create_request ?w q]"
    by (simp only: create_order_sent fwd forward_calls [OF q])
  have "result (try_block ?w ?b) = relay ?w q"
    by (simp only: fwd forward_result [OF q])
  also have "relay ?w q = Inr \<lparr>res_status = 200,
          res_json = Obj [(''success'', Bool True), (''shiprocketOrderId'', Num (Fin 9001)),
                          (''message'', Str ''Order created successfully in Shiprocket'')]\<rparr>"
    by (simp add: relay_def accepting_world_def world_at_def provider_accepts_def get_prop_def
        respond_def)
  finally have ans: "answer (create_order ?w ?b) = \<lparr>res_status = 200,
          res_json = Obj [(''success'', Bool True), (''shiprocketOrderId'', Num (Fin 9001)),
                          (''message'', Str ''Order created successfully in Shiprocket'')]\<rparr>"
    by (rule create_order_result)
  then have no: "answer (create_order ?w ?b) \<noteq> rejected ''Invalid cart item data''"
    by (simp add: rejected_def)
  have one: "length (sent (create_order ?w ?b)) = 1" by (simp add: sent)
  from p f cart id ans no one show ?thesis by (intro conjI)
qed

text \<open>
  \<^bold>\<open>C10.\<close> \<open>shippingCost\<close> and \<open>couponDiscount\<close> are not validated: no valid
  submission is answered 400 whatever these two fields hold, and when the mapping
  does not throw (every item id has a string) the request sent carries a payload in
  which a falsy value (absent, \<^verbatim>\<open>null\<close>, 0, \<^verbatim>\<open>NaN\<close>, the empty string, \<^verbatim>\<open>false\<close>)
  has become 0 in \<open>shipping_charges\<close> or \<open>total_discount\<close> and any truthy value is
  copied unchanged.
\<close>

theorem optional_charges_unvalidated:
  assumes "valid_submission body"
  shows "res_status (answer (create_order w body)) \<noteq> 400
    \<and> (mappable w body \<longrightarrow>
        (\<exists>p. sent (create_order w body) = [create_request w p]
          \<and> (\<not> truthy (read body ''shippingCost'') \<longrightarrow> read p ''shipping_charges'' = Num (Fin 0))
          \<and> (truthy (read body ''shippingCost'')
               \<longrightarrow> read p ''shipping_charges'' = read body ''shippingCost'')
          \<and> (\<not> truthy (read body ''couponDiscount'') \<longrightarrow> read p ''total_discount'' = Num (Fin 0))
          \<and> (truthy (read body ''couponDiscount'')
               \<longrightarrow> read p ''total_discount'' = read body ''couponDiscount'')))"
proof (intro conjI impI)
  show "res_status (answer (create_order w body)) \<noteq> 400"
    by (rule valid_not_400 [OF assms])
next
  assume m: "mappable w body"
  from valid_payload [OF assms m]
  obtain p where sent: "sent (create_order w body) = [create_request w p]"
    and "read p ''shipping_charges'' = js_or (read body ''shippingCost'') (Num (Fin 0))"
    and "read p ''total_discount'' = js_or (read body ''couponDiscount'') (Num (Fin 0))"
    by (elim exE conjE) (rule that, assumption+)
  then show "\<exists>p. sent (create_order w body) = [create_request w p]
          \<and> (\<not> truthy (read body ''shippingCost'') \<longrightarrow> read p ''shipping_charges'' = Num (Fin 0))
          \<and> (truthy (read body ''shippingCost'')
               \<longrightarrow> read p ''shipping_charges'' = read body ''shippingCost'')
          \<and> (\<not> truthy (read body ''couponDiscount'') \<longrightarrow> read p ''total_discount'' = Num (Fin 0))
          \<and> (truthy (read body ''couponDiscount'')
               \<longrightarrow> read p ''total_discount'' = read body ''couponDiscount'')"
    by (intro exI [of _ p]) (simp add: js_or_def)
qed

theorem optional_charges_unvalidated_witness:
  "valid_submission (submission_with_charges (Num (Fin (- 5))) (Str ''abc''))
   \<and> mappable accepting_world (submission_with_charges (Num (Fin (- 5))) (Str ''abc''))
   \<and> truthy (read (submission_with_charges (Num (Fin (- 5))) (Str ''abc'')) ''shippingCost'')
   \<and> truthy (read (submission_with_charges (Num (Fin (- 5))) (Str ''abc'')) ''couponDiscount'')
   \<and> (\<exists>p. sent (create_order accepting_world
                 (submission_with_charges (Num (Fin (- 5))) (Str ''abc'')))
              = [create_request accepting_world p]
          \<and> read p ''shipping_charges'' = Num (Fin (- 5))
          \<and> read p ''total_discount'' = Str ''abc'')
   \<and> res_status (answer (create_order accepting_world
         (submission_with_charges (Num (Fin (- 5))) (Str ''abc'')))) \<noteq> 400
   \<and> valid_submission (submission_with_charges Null (Bool False))
   \<and> mappable accepting_world (submission_with_charges Null (Bool False))
   \<and> \<not> truthy (read (submission_with_charges Null (Bool False)) ''shippingCost'')
   \<and> \<not> truthy (read (submission_with_charges Null (Bool False)) ''couponDiscount'')
   \<and> (\<exists>p. sent (create_order accepting_world (submission_with_charges Null (Bool False)))
              = [create_request accepting_world p]
          \<and> read p ''shipping_charges'' = Num (Fin 0)
          \<and> read p ''total_discount'' = Num (Fin 0))"
proof -
  let ?t = "submission_with_charges (Num (Fin (- 5))) (Str ''abc'')"
  let ?f = "submission_with_charges Null (Bool False)"
  have reads: "read (submission_with_charges sc cd) ''shippingCost'' = sc"
    "read (submission_with_charges sc cd) ''couponDiscount'' = cd" for sc cd
    by (simp_all add: submission_with_charges_def)
  have t: "truthy (read ?t ''shippingCost'')" "truthy (read ?t ''couponDiscount'')"
    and f: "\<not> truthy (read ?f ''shippingCost'')" "\<not> truthy (read ?f ''couponDiscount'')"
    by (simp_all add: reads)
  note mt = charges_mappable [of accepting_world "Num (Fin (- 5))" "Str ''abc''"]
  note mf = charges_mappable [of accepting_world Null "Bool False"]
  note ct = optional_charges_unvalidated
      [OF charges_valid [of "Num (Fin (- 5))" "Str ''abc''"], of accepting_world]
  note n = ct [THEN conjunct1]
  from ct [THEN conjunct2, THEN mp, OF mt]
  obtain p where s: "sent (create_order accepting_world ?t) = [create_request accepting_world p]"
    and a: "truthy (read ?t ''shippingCost'') \<longrightarrow> read p ''shipping_charges'' = read ?t ''shippingCost''"
    and b: "truthy (read ?t ''couponDiscount'') \<longrightarrow> read p ''total_discount'' = read ?t ''couponDiscount''"
    by (elim exE conjE) (rule that, assumption+)
  from a t(1) have "read p ''shipping_charges'' = read ?t ''shippingCost''" by (rule mp)
  then have a': "read p ''shipping_charges'' = Num (Fin (- 5))" by (simp only: reads)
  from b t(2) have "read p ''total_discount'' = read ?t ''couponDiscount''" by (rule mp)
  then have b': "read p ''total_discount'' = Str ''abc''" by (simp only: reads)
  from s a' b'
  have tt: "\<exists>p. sent (create_order accepting_world ?t) = [create_request accepting_world p]
          \<and> read p ''shipping_charges'' = Num (Fin (- 5))
          \<and> read p ''total_discount'' = Str ''abc''"
    by (intro exI [of _ p] conjI)
  from optional_charges_unvalidated [OF charges_valid [of Null "Bool False"], of accepting_world,
      THEN conjunct2, THEN mp, OF mf]
  obtain q where s: "sent (create_order accepting_world ?f) = [create_request accepting_world q]"
    and a: "\<not> truthy (read ?f ''shippingCost'') \<longrightarrow> read q ''shipping_charges'' = Num (Fin 0)"
    and b: "\<not> truthy (read ?f ''couponDiscount'') \<longrightarrow> read q ''total_discount'' = Num (Fin 0)"
    by (elim exE conjE) (rule that, assumption+)
  from a f(1) have a': "read q ''shipping_charges'' = Num (Fin 0)" by (rule mp)
  from b f(2) have b': "read q ''total_discount'' = Num (Fin 0)" by (rule mp)
  from s a' b'
  have ff: "\<exists>p. sent (create_order accepting_world ?f) = [create_request accepting_world p]
          \<and> read p ''shipping_charges'' = Num (Fin 0)
          \<and> read p ''total_discount'' = Num (Fin 0)"
    by (intro exI [of _ q] conjI)
  from charges_valid [of "Num (Fin (- 5))" "Str ''abc''"] mt t tt n
    charges_valid [of Null "Bool False"] mf f ff
  show ?thesis by (intro conjI)
qed

end
